theory Spec2Isabelle
  imports Complex_Main "HOL-Library.Sublist"
begin

section \<open>JavaScript strings\<close>

text \<open>
  Strings are lists of characters. Text outside ASCII is carried as its UTF-8 bytes; for
  well-formed text a substring test on the bytes agrees with the substring test of the
  source.
\<close>

definition backslash :: char where
  "backslash = CHR 0x5C"

definition newline :: char where
  "newline = CHR 0x0A"

text \<open>\<^verbatim>\<open>s.startsWith(p)\<close> and \<^verbatim>\<open>s.endsWith(p)\<close>.\<close>

definition startsWith :: "string \<Rightarrow> string \<Rightarrow> bool" where
  "startsWith s p = (take (length p) s = p)"

definition endsWith :: "string \<Rightarrow> string \<Rightarrow> bool" where
  "endsWith s p = (length p \<le> length s \<and> drop (length s - length p) s = p)"

text \<open>\<^verbatim>\<open>s.includes(p)\<close>: \<open>p\<close> occurs at some position of \<open>s\<close>.\<close>

fun includesStr :: "string \<Rightarrow> string \<Rightarrow> bool" where
  "includesStr [] p = (p = [])"
| "includesStr (c # cs) p = (startsWith (c # cs) p \<or> includesStr cs p)"

text \<open>
  \<^verbatim>\<open>s.split(sep)\<close> for a one-character separator predicate: the pieces between the
  separators, the empty string giving one empty piece.
\<close>

fun split_on :: "(char \<Rightarrow> bool) \<Rightarrow> string \<Rightarrow> string list" where
  "split_on P [] = [[]]"
| "split_on P (c # cs) =
     (if P c then [] # split_on P cs
      else (case split_on P cs of
              [] \<Rightarrow> [[c]]
            | w # ws \<Rightarrow> (c # w) # ws))"

text \<open>The regular expression \<^verbatim>\<open>/[/\\]/\<close>: a slash or a backslash.\<close>

definition is_sep :: "char \<Rightarrow> bool" where
  "is_sep c = (c = CHR ''/'' \<or> c = backslash)"

text \<open>\<^verbatim>\<open>xs.pop()\<close> as a value: the last element, \<^verbatim>\<open>undefined\<close> on the empty array.\<close>

definition pop :: "'a list \<Rightarrow> 'a option" where
  "pop xs = (if xs = [] then None else Some (last xs))"

text \<open>\<^verbatim>\<open>xs.join(sep)\<close>.\<close>

fun join :: "string \<Rightarrow> string list \<Rightarrow> string" where
  "join sep [] = []"
| "join sep [x] = x"
| "join sep (x # y # ys) = x @ sep @ join sep (y # ys)"

text \<open>
  \<^verbatim>\<open>s.toLowerCase()\<close> on the letters A to Z. The source compares the result with
  \<^verbatim>\<open>'rclone'\<close> only, and no character outside A to Z lowers to one of its letters.
\<close>

definition lower_char :: "char \<Rightarrow> char" where
  "lower_char c =
     (let n = (of_char c :: nat) in if 65 \<le> n \<and> n \<le> 90 then char_of (n + 32) else c)"

definition toLowerCase :: "string \<Rightarrow> string" where
  "toLowerCase s = map lower_char s"

text \<open>\<^verbatim>\<open>a || b\<close> on strings: the empty string is falsy.\<close>

definition or_else :: "string \<Rightarrow> string \<Rightarrow> string" where
  "or_else a b = (if a = [] then b else a)"

section \<open>Resolving the sync tool's path\<close>

text \<open>
  The three places that turn the configured \<^verbatim>\<open>rclonePath\<close> into the executable to
  run. Each takes the configured value, the empty string standing for a value that is
  absent or empty (both are falsy in \<^verbatim>\<open>settings.rclonePath || 'rclone'\<close>).
\<close>

text \<open>\<^verbatim>\<open>rcloneExecutable.split(/[/\\]/).pop()\<close>, then \<^verbatim>\<open>.toLowerCase() === 'rclone'\<close>.\<close>

definition lastPart_is_rclone :: "string \<Rightarrow> bool" where
  "lastPart_is_rclone exe =
     (case pop (split_on is_sep exe) of
        None \<Rightarrow> False
      | Some lastPart \<Rightarrow> toLowerCase lastPart = ''rclone'')"

text \<open>main.js, \<^verbatim>\<open>updateRcloneConfig\<close>, lines 64 to 85.\<close>

definition rcloneExecutable_updateRcloneConfig :: "string \<Rightarrow> string" where
  "rcloneExecutable_updateRcloneConfig rclonePath =
     (let rcloneExecutable = or_else rclonePath ''rclone'' in
      if rcloneExecutable \<noteq> [] then
        if endsWith rcloneExecutable [backslash] \<or> endsWith rcloneExecutable ''/''
        then rcloneExecutable @ ''rclone.exe''
        else if includesStr rcloneExecutable [backslash] \<or> includesStr rcloneExecutable ''/''
        then (if lastPart_is_rclone rcloneExecutable
              then rcloneExecutable @ ''.exe'' else rcloneExecutable)
        else if \<not> endsWith rcloneExecutable ''.exe''
        then rcloneExecutable @ ''.exe''
        else rcloneExecutable
      else rcloneExecutable)"

text \<open>renderer.js, \<^verbatim>\<open>syncWithServer\<close>, lines 137 to 154.\<close>

definition rcloneExecutable_syncWithServer :: "string \<Rightarrow> string" where
  "rcloneExecutable_syncWithServer rclonePath =
     (let rcloneExecutable = or_else rclonePath ''rclone'' in
      if rcloneExecutable \<noteq> [] then
        if endsWith rcloneExecutable [backslash] \<or> endsWith rcloneExecutable ''/''
        then rcloneExecutable @ ''rclone.exe''
        else if includesStr rcloneExecutable [backslash] \<or> includesStr rcloneExecutable ''/''
        then (if lastPart_is_rclone rcloneExecutable
              then rcloneExecutable @ ''.exe'' else rcloneExecutable)
        else rcloneExecutable
      else rcloneExecutable)"

text \<open>renderer.js, \<^verbatim>\<open>checkRcloneAvailability\<close>, lines 77 to 94.\<close>

definition rcloneExecutable_checkRcloneAvailability :: "string \<Rightarrow> string" where
  "rcloneExecutable_checkRcloneAvailability rclonePath =
     (let rcloneExecutable = or_else rclonePath ''rclone'' in
      if rcloneExecutable \<noteq> [] then
        if endsWith rcloneExecutable [backslash] \<or> endsWith rcloneExecutable ''/''
        then rcloneExecutable @ ''rclone.exe''
        else if includesStr rcloneExecutable [backslash] \<or> includesStr rcloneExecutable ''/''
        then (if lastPart_is_rclone rcloneExecutable
              then rcloneExecutable @ ''.exe'' else rcloneExecutable)
        else rcloneExecutable
      else rcloneExecutable)"

text \<open>
  The resolution rule in the words of the specification: a value ending in a separator
  gets the executable's name; a value that contains a separator and whose last segment,
  lowercased, is the tool's base name gets the extension; any other value is kept.
\<close>

definition last_segment :: "string \<Rightarrow> string" where
  "last_segment v = rev (takeWhile (\<lambda>c. \<not> is_sep c) (rev v))"

definition resolve_spec :: "string \<Rightarrow> string" where
  "resolve_spec v =
     (if v \<noteq> [] \<and> is_sep (last v) then v @ ''rclone.exe''
      else if list_ex is_sep v \<and> toLowerCase (last_segment v) = ''rclone'' then v @ ''.exe''
      else v)"

section \<open>The renderer: talking to the server\<close>

text \<open>
  The settings record \<^verbatim>\<open>{ ip, user, pass, rclonePath, syncInterval }\<close> held in
  \<^verbatim>\<open>serverSettings\<close>. The source only tests these fields for truthiness, so an absent
  field is the empty string, or 0 for \<^verbatim>\<open>syncInterval\<close>.
\<close>

record settings =
  ip :: string
  user :: string
  pass :: string
  rclonePath :: string
  syncInterval :: int

text \<open>
  The JSON answer of the server, with the fields the renderer reads. Text fields are
  what a template literal prints; \<^verbatim>\<open>returncode\<close> is \<open>None\<close> when undefined.
\<close>

record reply =
  success :: bool
  folderPath :: string
  error :: string
  outputText :: string
  returncode :: "string option"

text \<open>What \<^verbatim>\<open>fetch\<close> and \<^verbatim>\<open>response.json()\<close> do: throw, answer with a status that is
  not ok, or give a body (\<open>None\<close> for a falsy body such as \<^verbatim>\<open>null\<close>).\<close>

datatype fetch_outcome = FetchThrew string | NotOk string | Json "reply option"

text \<open>The object resolved by the \<^verbatim>\<open>execute-rclone\<close> handler; \<^verbatim>\<open>error\<close> is the empty
  string when the handler stores \<^verbatim>\<open>null\<close>.\<close>

record exec_result =
  r_error :: string
  r_stdout :: string
  r_stderr :: string

datatype exec_outcome = IpcThrew string | Completed exec_result

text \<open>What the renderer does to the outside: a line of the run log, a request to the
  server (url, action, fields), a command handed to \<^verbatim>\<open>executeRclone\<close>.\<close>

datatype effect =
    Log string
  | Fetch string string "(string \<times> string) list"
  | ExecuteRclone string

record env =
  fetch :: "string \<Rightarrow> string \<Rightarrow> (string \<times> string) list \<Rightarrow> fetch_outcome"
  executeRclone :: "string \<Rightarrow> exec_outcome"

definition dquote :: char where
  "dquote = CHR 0x22"

definition truthy_root :: "string option \<Rightarrow> bool" where
  "truthy_root r = (case r of None \<Rightarrow> False | Some p \<Rightarrow> p \<noteq> [])"

text \<open>\<^verbatim>\<open>sendToServer\<close> after its \<^verbatim>\<open>await\<close>: the answer is turned into a result or
  \<^verbatim>\<open>null\<close>.\<close>

definition sendToServer_receive :: "fetch_outcome \<Rightarrow> reply option \<times> effect list" where
  "sendToServer_receive oc =
     (case oc of
        FetchThrew m \<Rightarrow> (None, [Log (''Error communicating with server: '' @ m)])
      | NotOk st \<Rightarrow>
          (None, [Log (''Error communicating with server: HTTP error! status: '' @ st)])
      | Json r \<Rightarrow> (r, []))"

definition server_url :: "settings \<Rightarrow> string" where
  "server_url s = ''http://'' @ ip s @ '':3100''"

definition sendToServer ::
  "env \<Rightarrow> settings \<Rightarrow> string \<Rightarrow> (string \<times> string) list \<Rightarrow> reply option \<times> effect list" where
  "sendToServer e s action data =
     (if ip s = [] then (None, [Log ''Error: Server IP not configured''])
      else
        let (r, l) = sendToServer_receive (fetch e (server_url s) action data)
        in (r, Fetch (server_url s) action data # l))"

section \<open>The renderer: syncWithServer\<close>

definition sig_zh :: string where
  "sig_zh = [CHR 0xE7, CHR 0xB3, CHR 0xBB, CHR 0xE7, CHR 0xBB, CHR 0x9F, CHR 0xE6, CHR 0x89,
     CHR 0xBE, CHR 0xE4, CHR 0xB8, CHR 0x8D, CHR 0xE5, CHR 0x88, CHR 0xB0, CHR 0xE6, CHR 0x8C,
     CHR 0x87, CHR 0xE5, CHR 0xAE, CHR 0x9A, CHR 0xE7, CHR 0x9A, CHR 0x84, CHR 0xE6, CHR 0x96,
     CHR 0x87, CHR 0xE4, CHR 0xBB, CHR 0xB6]"

definition sig_section :: string where
  "sig_section = ''didn'' @ [CHR 0x27] @ ''t find section''"

text \<open>renderer.js, lines 172 to 175.\<close>

definition isRcloneNotFound :: "string \<Rightarrow> bool" where
  "isRcloneNotFound err =
     ((includesStr err sig_zh \<or> includesStr err ''command not found''
        \<or> includesStr err ''The system cannot find'')
      \<and> \<not> includesStr err sig_section)"

definition not_found_lines :: "effect list" where
  "not_found_lines =
     [Log ''Error: rclone executable not found. Please specify the full path to rclone.exe in server settings.'',
      Log (''Example: F:'' @ [backslash] @ ''rclone'' @ [backslash] @ ''rclone.exe''),
      Log ''Download rclone from: https://rclone.org/downloads/'']"

definition troubleshooting_lines :: "effect list" where
  "troubleshooting_lines =
     [Log (newline # ''Troubleshooting tips:''),
      Log ''1. Check if server IP, username, and password are correct'',
      Log ''2. Ensure SFTP port 22 is open on the server'',
      Log ''3. Verify that the server has SFTP enabled'',
      Log ''4. Check if the remote directory exists on the server'',
      Log ''5. Ensure your network connection is stable'']"

text \<open>renderer.js, lines 196 to 198.\<close>

definition progress_line :: "string \<Rightarrow> bool" where
  "progress_line line =
     (startsWith line ''Transferred:'' \<or> startsWith line ''Elapsed time:''
      \<or> startsWith line ''Checking:'')"

text \<open>\<^verbatim>\<open>s.split('\n')\<close>.\<close>

definition split_lines :: "string \<Rightarrow> string list" where
  "split_lines s = split_on (\<lambda>c. c = newline) s"

definition filteredStderr :: "string \<Rightarrow> string" where
  "filteredStderr err =
     join [newline] (filter (\<lambda>line. \<not> progress_line line) (split_lines err))"

text \<open>The check at the head of \<^verbatim>\<open>syncWithServer\<close>, line 114.\<close>

definition sync_ready :: "string option \<Rightarrow> settings \<Rightarrow> bool" where
  "sync_ready wsRoot s = (truthy_root wsRoot \<and> ip s \<noteq> [] \<and> user s \<noteq> [])"

text \<open>\<^verbatim>\<open>workspaceRoot.split(/[/\\]/).pop()\<close>; \<^verbatim>\<open>split\<close> never gives an empty array.\<close>

definition projectName :: "string \<Rightarrow> string" where
  "projectName wsRoot = (case pop (split_on is_sep wsRoot) of None \<Rightarrow> ''undefined'' | Some n \<Rightarrow> n)"

definition rcloneCommand :: "string \<Rightarrow> settings \<Rightarrow> string" where
  "rcloneCommand wsRoot s =
     rcloneExecutable_syncWithServer (rclonePath s) @ '' sync '' @ [dquote] @ wsRoot @ [dquote]
       @ '' '' @ [dquote] @ ''cloud-compiler-sftp:'' @ ''/shareOnling/'' @ projectName wsRoot
       @ [dquote] @ '' --progress''"

text \<open>
  Lines 124 to 165: from the answer to \<^verbatim>\<open>checkFolder\<close> up to the call of
  \<^verbatim>\<open>executeRclone\<close>. The result is the command that was started, or \<open>None\<close> when
  the function has returned \<^verbatim>\<open>false\<close>.
\<close>

definition sync_after_check ::
  "string \<Rightarrow> settings \<Rightarrow> reply option \<Rightarrow> string option \<times> effect list" where
  "sync_after_check wsRoot s checkResult =
     (case checkResult of
        None \<Rightarrow> (None, [Log ''Error checking folder on server''])
      | Some r \<Rightarrow>
          if success r then
            (Some (rcloneCommand wsRoot s),
             [Log (''Server folder ready: '' @ folderPath r),
              Log (''Starting sync: '' @ rcloneCommand wsRoot s),
              ExecuteRclone (rcloneCommand wsRoot s)])
          else (None, [Log (''Error preparing server folder: '' @ error r)]))"

text \<open>Lines 167 to 213: from the result of \<^verbatim>\<open>executeRclone\<close> to the return value.\<close>

definition sync_after_exec :: "exec_outcome \<Rightarrow> bool \<times> effect list" where
  "sync_after_exec oc =
     (case oc of
        IpcThrew m \<Rightarrow> (False, [Log (''Sync exception: '' @ m)])
      | Completed r \<Rightarrow>
          if r_error r \<noteq> [] then
            (False,
             Log (''Sync error: '' @ r_error r)
               # (if isRcloneNotFound (r_error r) then not_found_lines
                  else troubleshooting_lines))
          else
            (True,
             (if r_stderr r \<noteq> [] \<and> filteredStderr (r_stderr r) \<noteq> []
              then [Log (''Sync stderr: '' @ filteredStderr (r_stderr r))] else [])
             @ (if r_stdout r \<noteq> [] then [Log (''Sync stdout: '' @ r_stdout r)] else [])
             @ [Log ''Sync completed successfully - all files synced'']))"

definition syncWithServer :: "env \<Rightarrow> string option \<Rightarrow> settings \<Rightarrow> bool \<times> effect list" where
  "syncWithServer e wsRoot s =
     (case wsRoot of
        None \<Rightarrow> (False, [Log ''Error: Workspace not opened or server settings not configured''])
      | Some wr \<Rightarrow>
          if \<not> sync_ready wsRoot s then
            (False, [Log ''Error: Workspace not opened or server settings not configured''])
          else
            let (checkResult, l1) =
                  sendToServer e s ''checkFolder'' [(''folderName'', projectName wr)];
                (started, l2) = sync_after_check wr s checkResult
            in (case started of
                  None \<Rightarrow> (False, l1 @ l2)
                | Some cmd \<Rightarrow>
                    let (ok, l3) = sync_after_exec (executeRclone e cmd)
                    in (ok, l1 @ l2 @ l3)))"

section \<open>The renderer: runCodeOnServer\<close>

text \<open>\<^verbatim>\<open>s.replace(pat, '')\<close> with a string pattern: the first occurrence is removed.\<close>

fun remove_first :: "string \<Rightarrow> string \<Rightarrow> string" where
  "remove_first [] pat = []"
| "remove_first (c # cs) pat =
     (if startsWith (c # cs) pat then drop (length pat) (c # cs)
      else c # remove_first cs pat)"

text \<open>\<^verbatim>\<open>s.replace(/^[/\\]/, '')\<close>.\<close>

definition strip_leading_sep :: "string \<Rightarrow> string" where
  "strip_leading_sep s = (case s of [] \<Rightarrow> [] | c # cs \<Rightarrow> if is_sep c then cs else s)"

definition relativeFilePath :: "string \<Rightarrow> string \<Rightarrow> string" where
  "relativeFilePath wsRoot filePath = strip_leading_sep (remove_first filePath wsRoot)"

text \<open>Lines 681 to 705: reporting the answer to \<^verbatim>\<open>runCode\<close>.\<close>

definition report_run :: "reply option \<Rightarrow> effect list" where
  "report_run runResult =
     (case runResult of
        None \<Rightarrow> [Log ''Error: Failed to get run result from server'']
      | Some r \<Rightarrow>
          if success r then
            [Log (newline # ''=== RUN SUCCESS ==='')]
            @ (if outputText r \<noteq> [] then [Log ''Output:'', Log (outputText r)] else [])
            @ (if error r \<noteq> [] then [Log ''Warnings:'', Log (error r)] else [])
            @ [Log (''Return code: '' @ (case returncode r of None \<Rightarrow> ''undefined'' | Some c \<Rightarrow> c))]
          else
            [Log (newline # ''=== RUN FAILED ==='')]
            @ (if error r \<noteq> [] then [Log ''Error:'', Log (error r)] else [])
            @ (case returncode r of None \<Rightarrow> [] | Some c \<Rightarrow> [Log (''Return code: '' @ c)]))"

definition runCodeOnServer ::
  "env \<Rightarrow> string option \<Rightarrow> settings \<Rightarrow> string \<Rightarrow> string \<Rightarrow> effect list" where
  "runCodeOnServer e wsRoot s filePath content =
     (case wsRoot of
        None \<Rightarrow> [Log ''Error: Workspace not opened or server not configured'']
      | Some wr \<Rightarrow>
          if wr = [] \<or> ip s = [] then
            [Log ''Error: Workspace not opened or server not configured'']
          else
            let (syncSuccess, l1) = syncWithServer e wsRoot s in
            if \<not> syncSuccess then
              l1 @ [Log ''Error: Failed to sync with server before running'']
            else
              let rel = relativeFilePath wr filePath;
                  (runResult, l2) =
                    sendToServer e s ''runCode''
                      [(''folderName'', projectName wr), (''filePath'', rel),
                       (''content'', content)]
              in l1 @ [Log (''Running code: '' @ rel)] @ l2 @ report_run runResult)"

text \<open>The requests of a trace, by their action.\<close>

fun is_runCode :: "effect \<Rightarrow> bool" where
  "is_runCode (Fetch url action data) = (action = ''runCode'')"
| "is_runCode _ = False"

fun is_checkFolder :: "effect \<Rightarrow> bool" where
  "is_checkFolder (Fetch url action data) = (action = ''checkFolder'')"
| "is_checkFolder _ = False"

section \<open>The renderer: setupAutoSync\<close>

text \<open>Decimal digits, for the numbers printed into the log.\<close>

fun show_nat :: "nat \<Rightarrow> string" where
  "show_nat n =
     (if n < 10 then [char_of (48 + n)] else show_nat (n div 10) @ [char_of (48 + n mod 10)])"

declare show_nat.simps [simp del]

definition show_int :: "int \<Rightarrow> string" where
  "show_int i = (if i < 0 then ''-'' @ show_nat (nat (- i)) else show_nat (nat i))"

text \<open>
  The timers of the window: \<^verbatim>\<open>autoSyncInterval\<close> is the variable of the renderer
  (\<open>None\<close> for \<^verbatim>\<open>null\<close>), \<open>active\<close> the recurring timers that are armed, each with its
  identifier and its period in milliseconds, \<open>next_id\<close> the identifier that
  \<^verbatim>\<open>setInterval\<close> hands out next. \<^verbatim>\<open>setupAutoSync\<close> is the only place of the source
  that arms or cancels a timer.
\<close>

record timers =
  autoSyncInterval :: "nat option"
  active :: "(nat \<times> int) list"
  next_id :: nat

definition clearInterval :: "nat \<Rightarrow> timers \<Rightarrow> timers" where
  "clearInterval i t = t\<lparr>active := filter (\<lambda>(j, p). j \<noteq> i) (active t)\<rparr>"

definition setInterval :: "int \<Rightarrow> timers \<Rightarrow> nat \<times> timers" where
  "setInterval ms t =
     (next_id t, t\<lparr>active := active t @ [(next_id t, ms)], next_id := Suc (next_id t)\<rparr>)"

text \<open>renderer.js, lines 712 to 726. A timer identifier is truthy unless it is 0.\<close>

definition setupAutoSync :: "settings \<Rightarrow> timers \<Rightarrow> timers \<times> effect list" where
  "setupAutoSync s t =
     (let t1 = (case autoSyncInterval t of
                  None \<Rightarrow> t
                | Some i \<Rightarrow>
                    if i \<noteq> 0 then (clearInterval i t)\<lparr>autoSyncInterval := None\<rparr> else t);
          interval = (if syncInterval s = 0 then 30 else syncInterval s)
      in if interval > 0 then
           let (i, t2) = setInterval (interval * 1000) t1
           in (t2\<lparr>autoSyncInterval := Some i\<rparr>,
               [Log (''Setting up auto sync every '' @ show_int interval @ '' seconds'')])
         else (t1, []))"

text \<open>The window at start: no timer, identifiers handed out from 1.\<close>

definition timers_init :: timers where
  "timers_init = \<lparr>autoSyncInterval = None, active = [], next_id = 1\<rparr>"

text \<open>A sequence of calls, each with the settings in force at that moment.\<close>

fun setupAutoSync_calls :: "settings list \<Rightarrow> timers \<Rightarrow> timers" where
  "setupAutoSync_calls [] t = t"
| "setupAutoSync_calls (s # ss) t = setupAutoSync_calls ss (fst (setupAutoSync s t))"

text \<open>The variable names the one armed timer, or is \<^verbatim>\<open>null\<close> when none is armed.\<close>

definition timers_ok :: "timers \<Rightarrow> bool" where
  "timers_ok t =
     (0 < next_id t \<and>
      (case autoSyncInterval t of
         None \<Rightarrow> active t = []
       | Some i \<Rightarrow> 0 < i \<and> i < next_id t \<and> map fst (active t) = [i]))"

section \<open>The renderer: calls of syncWithServer that interleave\<close>

text \<open>
  \<^verbatim>\<open>syncWithServer\<close> is an async function: it runs up to its first \<^verbatim>\<open>await\<close> when
  called, and each later part runs when the awaited answer arrives. Between the parts
  any other handler of the renderer may run: the run button, the settings-save handler,
  the opening of a workspace, a tick of the timer. A task is one call that has started.
\<close>

datatype task = AwaitingFetch | AwaitingExec string | Finished bool

text \<open>The sync tool runs from the call of \<^verbatim>\<open>executeRclone\<close> until its result arrives.\<close>

fun process_running :: "task \<Rightarrow> bool" where
  "process_running (AwaitingExec cmd) = True"
| "process_running _ = False"

record world =
  w_root :: "string option"
  w_settings :: settings
  tasks :: "task list"
  trace :: "effect list"

datatype event = CallSync | FetchDone nat fetch_outcome | ExecDone nat exec_outcome

text \<open>
  \<open>CallSync\<close>: lines 113 to 123, up to the request sent by \<^verbatim>\<open>sendToServer\<close>.
  \<open>FetchDone i\<close>: the answer for task \<open>i\<close> arrives, lines 124 to 165.
  \<open>ExecDone i\<close>: the sync tool of task \<open>i\<close> has ended, lines 167 to 213.
  An event for a task that is not waiting for it changes nothing.
\<close>

definition step :: "event \<Rightarrow> world \<Rightarrow> world" where
  "step ev w =
     (case ev of
        CallSync \<Rightarrow>
          (case w_root w of
             None \<Rightarrow>
               w\<lparr>tasks := tasks w @ [Finished False],
                 trace := trace w
                   @ [Log ''Error: Workspace not opened or server settings not configured'']\<rparr>
           | Some wr \<Rightarrow>
               if \<not> sync_ready (w_root w) (w_settings w) then
                 w\<lparr>tasks := tasks w @ [Finished False],
                   trace := trace w
                     @ [Log ''Error: Workspace not opened or server settings not configured'']\<rparr>
               else
                 w\<lparr>tasks := tasks w @ [AwaitingFetch],
                   trace := trace w
                     @ [Fetch (server_url (w_settings w)) ''checkFolder''
                          [(''folderName'', projectName wr)]]\<rparr>)
      | FetchDone i oc \<Rightarrow>
          (case w_root w of
             None \<Rightarrow> w
           | Some wr \<Rightarrow>
               if i < length (tasks w) \<and> tasks w ! i = AwaitingFetch then
                 let (checkResult, l1) = sendToServer_receive oc;
                     (started, l2) = sync_after_check wr (w_settings w) checkResult
                 in w\<lparr>tasks := (tasks w)[i := (case started of
                                                  None \<Rightarrow> Finished False
                                                | Some cmd \<Rightarrow> AwaitingExec cmd)],
                      trace := trace w @ l1 @ l2\<rparr>
               else w)
      | ExecDone i oc \<Rightarrow>
          if i < length (tasks w) \<and> process_running (tasks w ! i) then
            let (ok, l3) = sync_after_exec oc
            in w\<lparr>tasks := (tasks w)[i := Finished ok], trace := trace w @ l3\<rparr>
          else w)"

fun run_events :: "event list \<Rightarrow> world \<Rightarrow> world" where
  "run_events [] w = w"
| "run_events (ev # evs) w = run_events evs (step ev w)"

definition in_flight :: "world \<Rightarrow> nat" where
  "in_flight w = length (filter process_running (tasks w))"

definition world_init :: "string option \<Rightarrow> settings \<Rightarrow> world" where
  "world_init wsRoot s = \<lparr>w_root = wsRoot, w_settings = s, tasks = [], trace = []\<rparr>"

text \<open>
  One call that runs alone: each answer it waits for is the one the surroundings give,
  and no other handler runs in between.
\<close>

definition lone_call :: "env \<Rightarrow> string option \<Rightarrow> settings \<Rightarrow> world" where
  "lone_call e wsRoot s =
     (let w1 = step CallSync (world_init wsRoot s) in
      case (wsRoot, tasks w1) of
        (Some wr, [AwaitingFetch]) \<Rightarrow>
          (let w2 = step (FetchDone 0 (fetch e (server_url s) ''checkFolder''
                            [(''folderName'', projectName wr)])) w1
           in case tasks w2 of
                [AwaitingExec cmd] \<Rightarrow> step (ExecDone 0 (executeRclone e cmd)) w2
              | _ \<Rightarrow> w2)
      | _ \<Rightarrow> w1)"

section \<open>The main process: settings\<close>

text \<open>
  Values of \<^verbatim>\<open>JSON.parse\<close>. A property read on \<^verbatim>\<open>null\<close> throws; on any other value
  that is not an object, the properties read here are undefined (\<open>None\<close>).
\<close>

datatype json =
    JNull | JBool bool | JNum rat | JStr string | JArr "json list"
  | JObj "(string \<times> json) list"

datatype exn = TypeError string | SyntaxError string | SystemError string

fun get_prop :: "json \<Rightarrow> string \<Rightarrow> exn + json option" where
  "get_prop JNull k = Inl (TypeError (''Cannot read properties of null (reading '' @ k @ '')''))"
| "get_prop (JObj kvs) k = Inr (map_of kvs k)"
| "get_prop _ k = Inr None"

fun truthy :: "json option \<Rightarrow> bool" where
  "truthy None = False"
| "truthy (Some JNull) = False"
| "truthy (Some (JBool b)) = b"
| "truthy (Some (JNum n)) = (n \<noteq> 0)"
| "truthy (Some (JStr s)) = (s \<noteq> [])"
| "truthy (Some (JArr xs)) = True"
| "truthy (Some (JObj kvs)) = True"

text \<open>
  What the main process finds around it. For each of the two settings files: \<open>None\<close>
  when \<^verbatim>\<open>existsSync\<close> is false, otherwise what \<^verbatim>\<open>readFileSync\<close> does.
  \<open>exec_callback\<close> is what \<^verbatim>\<open>exec\<close> does with a command: \<open>None\<close> when the command
  never ends, so that the callback is never called (\<^verbatim>\<open>exec\<close> is given no timeout);
  \<open>Some err\<close> when the callback is called, \<open>err\<close> telling whether its \<^verbatim>\<open>error\<close>
  argument is set.
\<close>

record main_env =
  settings_file :: "(exn + string) option"
  default_file :: "(exn + string) option"
  json_parse :: "string \<Rightarrow> exn + json"
  write_settings :: "string \<Rightarrow> exn option"
  appdata :: "string option"
  config_dir_exists :: bool
  mkdir_config_dir :: "exn option"
  exec_callback :: "string \<Rightarrow> bool option"
  to_text :: "json option \<Rightarrow> string"

text \<open>
  The end of an async function or of a promise: a value, an exception, or neither,
  when what it waits for never comes.
\<close>

datatype 'a promise = Resolved 'a | Rejected exn | Pending

text \<open>A value inside a template literal.\<close>

definition template :: "main_env \<Rightarrow> json option \<Rightarrow> string" where
  "template e v = (case v of Some (JStr s) \<Rightarrow> s | _ \<Rightarrow> to_text e v)"

text \<open>main.js, lines 88 to 94.\<close>

definition config_command ::
  "main_env \<Rightarrow> string \<Rightarrow> json option \<Rightarrow> json option \<Rightarrow> json option \<Rightarrow> string" where
  "config_command e rcloneExecutable ipv userv passv =
     rcloneExecutable @ '' config create cloud-compiler-sftp sftp ''
       @ ''host='' @ [dquote] @ template e ipv @ [dquote] @ '' ''
       @ ''user='' @ [dquote] @ template e userv @ [dquote] @ '' ''
       @ ''port=22 ''
       @ (if truthy passv then ''pass='' @ [dquote] @ template e passv @ [dquote] @ '' '' else [])
       @ ''--non-interactive''"

text \<open>
  main.js, lines 97 to 108: the promise is resolved inside the callback of \<^verbatim>\<open>exec\<close>
  and nowhere else, with \<^verbatim>\<open>false\<close> when the callback gets an error.
\<close>

definition exec_config :: "main_env \<Rightarrow> string \<Rightarrow> bool promise" where
  "exec_config e command =
     (case exec_callback e command of
        None \<Rightarrow> Pending
      | Some err \<Rightarrow> Resolved (\<not> err))"

text \<open>
  main.js, lines 45 to 110. An exception thrown while the executor of the promise runs
  rejects the promise.
\<close>

definition updateRcloneConfig :: "main_env \<Rightarrow> json \<Rightarrow> bool promise" where
  "updateRcloneConfig e settings =
     (case get_prop settings ''ip'' of
        Inl x \<Rightarrow> Rejected x
      | Inr ipv \<Rightarrow>
      (case get_prop settings ''user'' of
        Inl x \<Rightarrow> Rejected x
      | Inr userv \<Rightarrow>
      if \<not> truthy ipv \<or> \<not> truthy userv then Resolved False
      else
      (case appdata e of
        None \<Rightarrow> Rejected (TypeError ''The path argument must be of type string'')
      | Some dir \<Rightarrow>
      if \<not> config_dir_exists e \<and> mkdir_config_dir e \<noteq> None then Resolved False
      else
      (case get_prop settings ''rclonePath'' of
        Inl x \<Rightarrow> Rejected x
      | Inr pathv \<Rightarrow>
      (case get_prop settings ''pass'' of
        Inl x \<Rightarrow> Rejected x
      | Inr passv \<Rightarrow>
      if \<not> truthy pathv then
        exec_config e (config_command e (rcloneExecutable_updateRcloneConfig []) ipv userv passv)
      else
      (case pathv of
        Some (JStr p) \<Rightarrow>
          exec_config e (config_command e (rcloneExecutable_updateRcloneConfig p) ipv userv passv)
      | _ \<Rightarrow> Rejected (TypeError ''rcloneExecutable.endsWith is not a function'')))))))"





section \<open>The main process: the tree of the workspace\<close>

text \<open>
  What the walk meets at a path. \<open>Missing\<close>: \<^verbatim>\<open>statSync\<close> throws. \<open>NotDirectory\<close>:
  it succeeds and \<^verbatim>\<open>isDirectory()\<close> is false. \<open>Unlistable\<close>: a directory whose
  \<^verbatim>\<open>readdirSync\<close> throws. \<open>Directory\<close>: a directory and its listing. An entry of a
  listing has its name, the kind its \<^verbatim>\<open>Dirent\<close> reports, and what is met at its path
  afterwards; the two may disagree, since the directory can change between the calls.
\<close>

datatype dkind = DirEnt | FileEnt | OtherEnt

datatype fsobj = Missing | NotDirectory | Unlistable | Directory "entry list"
  and entry = Entry string dkind fsobj

text \<open>A value of \<^verbatim>\<open>readTree\<close>: \<^verbatim>\<open>null\<close>, a folder node (name, path, children) or a
  file node (name, path).\<close>

datatype tree = Null | Folder string string "tree list" | File string string

text \<open>
  \<^verbatim>\<open>path.basename\<close> and \<^verbatim>\<open>path.join\<close> of a directory and a name, without the
  normalisation of \<^verbatim>\<open>.\<close> and \<^verbatim>\<open>..\<close> segments.
\<close>

definition basename :: "string \<Rightarrow> string" where
  "basename p =
     rev (takeWhile (\<lambda>c. \<not> is_sep c) (dropWhile is_sep (rev p)))"

definition path_join :: "string \<Rightarrow> string \<Rightarrow> string" where
  "path_join d n = (if d = [] then n else if is_sep (last d) then d @ n else d @ ''/'' @ n)"

text \<open>main.js, lines 199 to 230; \<open>readEntries\<close> is the \<^verbatim>\<open>for\<close> loop.\<close>

fun readTree :: "fsobj \<Rightarrow> string \<Rightarrow> tree"
  and readEntries :: "string \<Rightarrow> entry list \<Rightarrow> tree list" where
  "readTree Missing dirPath = Null"
| "readTree NotDirectory dirPath = Null"
| "readTree Unlistable dirPath = Folder (basename dirPath) dirPath []"
| "readTree (Directory entries) dirPath =
     Folder (basename dirPath) dirPath (readEntries dirPath entries)"
| "readEntries dirPath [] = []"
| "readEntries dirPath (Entry name kind obj # es) =
     (case kind of
        DirEnt \<Rightarrow> readTree obj (path_join dirPath name) # readEntries dirPath es
      | FileEnt \<Rightarrow> File name (path_join dirPath name) # readEntries dirPath es
      | OtherEnt \<Rightarrow> readEntries dirPath es)"

text \<open>A node the renderer can draw: not \<^verbatim>\<open>null\<close>, and no \<^verbatim>\<open>null\<close> among the children
  at any depth.\<close>

fun well_formed :: "tree \<Rightarrow> bool" where
  "well_formed Null = False"
| "well_formed (File n p) = True"
| "well_formed (Folder n p cs) = list_all well_formed cs"

section \<open>The main process: watching directories\<close>

text \<open>
  \<^verbatim>\<open>watchers\<close> is a \<^verbatim>\<open>Map\<close> from path to watcher, kept in insertion order. A watcher
  is a number; \<open>closed\<close> lists the watchers that were closed.
\<close>

record wstate =
  watchers :: "(string \<times> nat) list"
  closed :: "nat list"
  next_watcher :: nat

definition has_watcher :: "wstate \<Rightarrow> string \<Rightarrow> bool" where
  "has_watcher ws p = (map_of (watchers ws) p \<noteq> None)"

text \<open>\<^verbatim>\<open>fs.watch(dir, ...)\<close> followed by \<^verbatim>\<open>watchers.set(dir, watcher)\<close>.\<close>

definition set_watcher :: "string \<Rightarrow> wstate \<Rightarrow> wstate" where
  "set_watcher dir ws =
     ws\<lparr>watchers :=
          (if has_watcher ws dir
           then map (\<lambda>(p, w). if p = dir then (p, next_watcher ws) else (p, w)) (watchers ws)
           else watchers ws @ [(dir, next_watcher ws)]),
        next_watcher := Suc (next_watcher ws)\<rparr>"

text \<open>
  main.js, lines 244 to 272; \<open>attachEntries\<close> is the \<^verbatim>\<open>for\<close> loop. \<^verbatim>\<open>fs.watch\<close>
  throws on a path that does not exist, and nothing catches it: the first component of
  the result is the exception that leaves the function, if any.
\<close>

fun attachWatcher :: "fsobj \<Rightarrow> string \<Rightarrow> wstate \<Rightarrow> exn option \<times> wstate"
  and attachEntries :: "string \<Rightarrow> entry list \<Rightarrow> wstate \<Rightarrow> exn option \<times> wstate" where
  "attachWatcher Missing dir ws =
     (if has_watcher ws dir then (None, ws) else (Some (SystemError ''ENOENT''), ws))"
| "attachWatcher NotDirectory dir ws =
     (if has_watcher ws dir then (None, ws) else (None, set_watcher dir ws))"
| "attachWatcher Unlistable dir ws =
     (if has_watcher ws dir then (None, ws) else (None, set_watcher dir ws))"
| "attachWatcher (Directory entries) dir ws =
     (if has_watcher ws dir then (None, ws)
      else attachEntries dir entries (set_watcher dir ws))"
| "attachEntries dir [] ws = (None, ws)"
| "attachEntries dir (Entry name kind obj # es) ws =
     (if kind = DirEnt then
        (case attachWatcher obj (path_join dir name) ws of
           (Some x, ws') \<Rightarrow> (Some x, ws')
         | (None, ws') \<Rightarrow> attachEntries dir es ws')
      else attachEntries dir es ws)"

text \<open>main.js, lines 235 to 240: the loop over a copy of the map.\<close>

fun clear_watchers :: "string \<Rightarrow> (string \<times> nat) list \<Rightarrow> wstate \<Rightarrow> wstate" where
  "clear_watchers r [] ws = ws"
| "clear_watchers r ((p, w) # rest) ws =
     (if startsWith p r
      then clear_watchers r rest
             (ws\<lparr>watchers := filter (\<lambda>(q, v). q \<noteq> p) (watchers ws), closed := closed ws @ [w]\<rparr>)
      else clear_watchers r rest ws)"

text \<open>main.js, lines 233 to 242.\<close>

definition watchFolderRecursive :: "fsobj \<Rightarrow> string \<Rightarrow> wstate \<Rightarrow> exn option \<times> wstate" where
  "watchFolderRecursive obj r ws = attachWatcher obj r (clear_watchers r (watchers ws) ws)"

text \<open>
  A path below \<open>r\<close> in the file system: \<open>r\<close>, a separator, and at least one more
  segment (the separator may be the last character of \<open>r\<close> itself).
\<close>

definition descendant :: "string \<Rightarrow> string \<Rightarrow> bool" where
  "descendant r p =
     (startsWith p r \<and> length r < length p \<and>
      (is_sep (p ! length r) \<or> (r \<noteq> [] \<and> is_sep (last r))))"

text \<open>A watch on \<open>p\<close> is still armed: it is in the map and its watcher was not closed.\<close>

definition armed :: "wstate \<Rightarrow> string \<Rightarrow> bool" where
  "armed ws p =
     (case map_of (watchers ws) p of None \<Rightarrow> False | Some w \<Rightarrow> w \<notin> set (closed ws))"

section \<open>Reading the outcome of a sync off the log\<close>

text \<open>
  The source has no value for the outcome of a sync: it tells the two kinds of failure
  of the sync tool apart by the block of lines it writes to the log. \<open>ToolNotFound\<close>
  is the guided remediation block, \<open>TransferError\<close> the block of troubleshooting tips.
\<close>

definition reports_ToolNotFound :: "effect list \<Rightarrow> bool" where
  "reports_ToolNotFound l = (set not_found_lines \<subseteq> set l)"

definition reports_TransferError :: "effect list \<Rightarrow> bool" where
  "reports_TransferError l = (set troubleshooting_lines \<subseteq> set l)"

text \<open>The signatures in the words of the specification.\<close>

definition tool_not_found_signature :: "string \<Rightarrow> bool" where
  "tool_not_found_signature m =
     (sublist sig_zh m \<or> sublist ''command not found'' m \<or> sublist ''The system cannot find'' m)"

definition mentions_missing_section :: "string \<Rightarrow> bool" where
  "mentions_missing_section m = sublist sig_section m"

fun is_call :: "event \<Rightarrow> bool" where
  "is_call CallSync = True"
| "is_call _ = False"

section \<open>Concrete surroundings\<close>

text \<open>Settings with a server and a user, and no path for the sync tool.\<close>

definition cfg_plain :: settings where
  "cfg_plain = \<lparr>ip = ''10.0.0.5'', user = ''dev'', pass = [], rclonePath = [], syncInterval = 60\<rparr>"

text \<open>A server that answers every request with success, and one that cannot be reached.\<close>

definition reply_ready :: reply where
  "reply_ready =
     \<lparr>success = True, folderPath = ''/shareOnling/p'', error = [], outputText = [],
      returncode = None\<rparr>"

definition exec_clean :: exec_result where
  "exec_clean = \<lparr>r_error = [], r_stdout = [], r_stderr = []\<rparr>"

definition env_online :: env where
  "env_online =
     \<lparr>fetch = (\<lambda>url action data. Json (Some reply_ready)),
      executeRclone = (\<lambda>cmd. Completed exec_clean)\<rparr>"

definition env_offline :: env where
  "env_offline =
     \<lparr>fetch = (\<lambda>url action data. FetchThrew ''Failed to fetch''),
      executeRclone = (\<lambda>cmd. IpcThrew ''no handler'')\<rparr>"






text \<open>\<open>n\<close> calls of \<^verbatim>\<open>syncWithServer\<close>, then the answer to each folder check.\<close>

definition calls_then_answers :: "nat \<Rightarrow> reply \<Rightarrow> event list" where
  "calls_then_answers n r =
     replicate n CallSync @ map (\<lambda>i. FetchDone i (Json (Some r))) [0..<n]"

section \<open>Facts about the string operations\<close>

lemma endsWith_single: "endsWith s [c] \<longleftrightarrow> s \<noteq> [] \<and> last s = c"
proof (cases s rule: rev_cases)
  case Nil
  then show ?thesis by (simp add: endsWith_def)
next
  case (snoc ys y)
  then show ?thesis by (auto simp: endsWith_def)
qed

lemma includesStr_single: "includesStr s [c] \<longleftrightarrow> c \<in> set s"
  by (induction s) (auto simp: startsWith_def)

lemma has_sep_iff: "includesStr s [backslash] \<or> includesStr s ''/'' \<longleftrightarrow> list_ex is_sep s"
  by (auto simp: includesStr_single list_ex_iff is_sep_def)

lemma ends_sep_iff:
  "endsWith s [backslash] \<or> endsWith s ''/'' \<longleftrightarrow> s \<noteq> [] \<and> is_sep (last s)"
  by (auto simp: endsWith_single is_sep_def)

lemma split_on_nonempty: "split_on P s \<noteq> []"
  by (induction s) (auto split: list.splits)

lemma split_on_length: "length (split_on P s) = Suc (length (filter P s))"
  by (induction s) (auto split: list.splits)

text \<open>The last piece of a split is what follows the last separator.\<close>

lemma split_on_last: "last (split_on P s) = rev (takeWhile (\<lambda>c. \<not> P c) (rev s))"
proof (induction s)
  case Nil
  show ?case by simp
next
  case (Cons c cs)
  show ?case
  proof (cases "P c")
    case True
    then show ?thesis using Cons split_on_nonempty [of P cs]
      by (simp add: takeWhile_append)
  next
    case False
    obtain w ws where sp: "split_on P cs = w # ws"
      using split_on_nonempty [of P cs] by (cases "split_on P cs") auto
    show ?thesis
    proof (cases ws)
      case Nil
      with sp have "filter P cs = []" using split_on_length [of P cs] by simp
      then have all: "\<forall>x\<in>set cs. \<not> P x" by (simp add: filter_empty_conv)
      then have "takeWhile (\<lambda>c. \<not> P c) (rev cs) = rev cs" by simp
      with Cons sp Nil False all show ?thesis by (simp add: takeWhile_append)
    next
      case (Cons v vs)
      with sp have "filter P cs \<noteq> []" using split_on_length [of P cs] by auto
      then obtain x where "x \<in> set cs" "P x" by (auto simp: filter_empty_conv)
      then have "\<not> (\<forall>x\<in>set (rev cs). \<not> P x)" by auto
      with Cons.IH sp Cons False show ?thesis by (auto simp add: takeWhile_append)
    qed
  qed
qed

lemma startsWith_prefix: "startsWith s p \<longleftrightarrow> prefix p s"
  by (auto simp: startsWith_def prefix_def) (metis append_eq_conv_conj)

lemma includesStr_sublist: "includesStr s p \<longleftrightarrow> sublist p s"
  by (induction s) (auto simp: startsWith_prefix sublist_Cons_right)

lemma join_Cons: "join sep (x # xs) = (if xs = [] then x else x @ sep @ join sep xs)"
  by (cases xs) simp_all

lemma join_split_on: "join [c] (split_on (\<lambda>x. x = c) s) = s"
proof (induction s)
  case Nil
  show ?case by simp
next
  case (Cons a s)
  obtain w ws where sp: "split_on (\<lambda>x. x = c) s = w # ws"
    using split_on_nonempty [of "\<lambda>x. x = c" s] by (cases "split_on (\<lambda>x. x = c) s") auto
  with Cons show ?case by (auto simp: join_Cons split: if_splits)
qed

lemma split_on_pieces: "\<forall>l\<in>set (split_on P s). \<forall>x\<in>set l. \<not> P x"
  by (induction s) (auto split: list.splits)

section \<open>The path resolution at its three places\<close>

lemma lastPart_is_rclone_iff:
  "lastPart_is_rclone s \<longleftrightarrow> toLowerCase (last_segment s) = ''rclone''"
  by (simp add: lastPart_is_rclone_def pop_def split_on_nonempty split_on_last last_segment_def)

lemma sync_resolve: "rcloneExecutable_syncWithServer v = resolve_spec (or_else v ''rclone'')"
proof -
  have ne: "or_else v ''rclone'' \<noteq> []" by (simp add: or_else_def)
  show ?thesis
    unfolding rcloneExecutable_syncWithServer_def resolve_spec_def Let_def
    using ne by (simp add: ends_sep_iff has_sep_iff lastPart_is_rclone_iff)
qed

lemma check_resolve:
  "rcloneExecutable_checkRcloneAvailability v = resolve_spec (or_else v ''rclone'')"
proof -
  have ne: "or_else v ''rclone'' \<noteq> []" by (simp add: or_else_def)
  show ?thesis
    unfolding rcloneExecutable_checkRcloneAvailability_def resolve_spec_def Let_def
    using ne by (simp add: ends_sep_iff has_sep_iff lastPart_is_rclone_iff)
qed

lemma resolve_spec_no_sep: "\<not> list_ex is_sep r \<Longrightarrow> resolve_spec r = r"
  by (auto simp: resolve_spec_def list_ex_iff)

lemma main_resolve:
  "rcloneExecutable_updateRcloneConfig v =
     (let r = or_else v ''rclone'' in
      if list_ex is_sep r \<or> endsWith r ''.exe'' then resolve_spec r else r @ ''.exe'')"
proof -
  define r where "r = or_else v ''rclone''"
  have ne: "r \<noteq> []" by (simp add: r_def or_else_def)
  have last_sep: "is_sep (last r) \<Longrightarrow> list_ex is_sep r"
    using ne by (auto simp: list_ex_iff)
  show ?thesis
  proof (cases "list_ex is_sep r")
    case True
    then show ?thesis
      unfolding rcloneExecutable_updateRcloneConfig_def resolve_spec_def Let_def r_def [symmetric]
      using ne by (simp add: ends_sep_iff has_sep_iff lastPart_is_rclone_iff)
  next
    case False
    then have "\<not> is_sep (last r)" using last_sep by blast
    with False show ?thesis
      unfolding rcloneExecutable_updateRcloneConfig_def Let_def r_def [symmetric]
      using ne by (simp add: ends_sep_iff has_sep_iff resolve_spec_no_sep)
  qed
qed

text \<open>
  C3, as stated, fails: for the bare command name the main process resolves to another
  executable than the renderer.
\<close>

theorem resolution_sites_differ_on_bare_name:
  "rcloneExecutable_updateRcloneConfig ''rclone'' \<noteq> rcloneExecutable_syncWithServer ''rclone''"
  by (simp add: rcloneExecutable_updateRcloneConfig_def rcloneExecutable_syncWithServer_def
      or_else_def endsWith_def startsWith_def backslash_def)

text \<open>
  C3, amended: the two places of the renderer (\<^verbatim>\<open>syncWithServer\<close> and
  \<^verbatim>\<open>checkRcloneAvailability\<close>) resolve every configured value to the same executable.
  The main process (\<^verbatim>\<open>updateRcloneConfig\<close>) agrees with them exactly when the value
  (\<^verbatim>\<open>rclone\<close> for an empty one) contains a separator or ends in \<^verbatim>\<open>.exe\<close>; for any
  other value it resolves to the renderer's executable with \<^verbatim>\<open>.exe\<close> appended.
\<close>

theorem resolution_sites_agree:
  "rcloneExecutable_syncWithServer v = rcloneExecutable_checkRcloneAvailability v
   \<and> (rcloneExecutable_updateRcloneConfig v = rcloneExecutable_syncWithServer v
        \<longleftrightarrow> list_ex is_sep (or_else v ''rclone'') \<or> endsWith (or_else v ''rclone'') ''.exe'')
   \<and> (\<not> (list_ex is_sep (or_else v ''rclone'') \<or> endsWith (or_else v ''rclone'') ''.exe'')
        \<longrightarrow> rcloneExecutable_updateRcloneConfig v = rcloneExecutable_syncWithServer v @ ''.exe'')"
proof -
  define r where "r = or_else v ''rclone''"
  have s: "rcloneExecutable_syncWithServer v = resolve_spec r"
    by (simp add: sync_resolve r_def)
  have c: "rcloneExecutable_checkRcloneAvailability v = resolve_spec r"
    by (simp add: check_resolve r_def)
  have m: "rcloneExecutable_updateRcloneConfig v =
      (if list_ex is_sep r \<or> endsWith r ''.exe'' then resolve_spec r else r @ ''.exe'')"
    by (simp add: main_resolve r_def Let_def)
  have plain: "\<not> list_ex is_sep r \<Longrightarrow> resolve_spec r = r"
    by (rule resolve_spec_no_sep)
  show ?thesis
    unfolding r_def [symmetric] using s c m plain by auto
qed

theorem resolution_sites_agree_witness:
  "rcloneExecutable_syncWithServer ''rclone'' = rcloneExecutable_checkRcloneAvailability ''rclone''
   \<and> rcloneExecutable_updateRcloneConfig ''rclone'' = rcloneExecutable_syncWithServer ''rclone'' @ ''.exe''
   \<and> rcloneExecutable_updateRcloneConfig ''/opt/rclone'' = rcloneExecutable_syncWithServer ''/opt/rclone''"
  using resolution_sites_agree [of "''rclone''"] resolution_sites_agree [of "''/opt/rclone''"]
  by (simp add: or_else_def endsWith_def is_sep_def backslash_def)

text \<open>
  C4, as stated, fails in the main process: there the bare command name \<^verbatim>\<open>rclone\<close>
  is not kept but becomes \<^verbatim>\<open>rclone.exe\<close>, while the rule keeps it.
\<close>

theorem main_bare_name_gets_extension:
  "rcloneExecutable_updateRcloneConfig ''rclone'' = ''rclone.exe''
   \<and> resolve_spec ''rclone'' = ''rclone''"
  by (simp add: rcloneExecutable_updateRcloneConfig_def resolve_spec_def or_else_def
      endsWith_def startsWith_def is_sep_def backslash_def)

text \<open>
  C4, amended: in \<^verbatim>\<open>syncWithServer\<close> the executable is given by the rule of the
  specification, applied to the configured value or to \<^verbatim>\<open>rclone\<close> when the value is
  empty: a value ending in a separator gets \<^verbatim>\<open>rclone.exe\<close> appended, a value with a
  separator whose last segment lowercased is \<^verbatim>\<open>rclone\<close> gets \<^verbatim>\<open>.exe\<close> appended,
  any other value is kept, so \<^verbatim>\<open>rclone\<close> stays \<^verbatim>\<open>rclone\<close>. In
  \<^verbatim>\<open>updateRcloneConfig\<close> the same rule holds for a value that contains a separator
  or ends in \<^verbatim>\<open>.exe\<close>, and any other value gets \<^verbatim>\<open>.exe\<close> appended.
\<close>

theorem tool_path_rule:
  "rcloneExecutable_syncWithServer v = resolve_spec (or_else v ''rclone'')
   \<and> rcloneExecutable_updateRcloneConfig v =
       (if list_ex is_sep (or_else v ''rclone'') \<or> endsWith (or_else v ''rclone'') ''.exe''
        then resolve_spec (or_else v ''rclone'') else or_else v ''rclone'' @ ''.exe'')
   \<and> rcloneExecutable_syncWithServer ''rclone'' = ''rclone''"
proof -
  have "rcloneExecutable_syncWithServer ''rclone'' = ''rclone''"
    by (simp add: sync_resolve resolve_spec_def or_else_def is_sep_def backslash_def)
  then show ?thesis
    by (simp add: sync_resolve main_resolve Let_def)
qed

theorem tool_path_rule_witness:
  "rcloneExecutable_syncWithServer (''C:'' @ [backslash] @ ''tools'' @ [backslash])
     = ''C:'' @ [backslash] @ ''tools'' @ [backslash] @ ''rclone.exe''
   \<and> rcloneExecutable_syncWithServer (''C:'' @ [backslash] @ ''tools'' @ [backslash] @ ''rclone'')
     = ''C:'' @ [backslash] @ ''tools'' @ [backslash] @ ''rclone.exe''
   \<and> rcloneExecutable_updateRcloneConfig ''tool'' = ''tool.exe''"
  using tool_path_rule [of "''C:'' @ [backslash] @ ''tools'' @ [backslash]"]
    tool_path_rule [of "''C:'' @ [backslash] @ ''tools'' @ [backslash] @ ''rclone''"]
    tool_path_rule [of "''tool''"]
  by (simp add: resolve_spec_def or_else_def endsWith_def is_sep_def backslash_def
      last_segment_def toLowerCase_def lower_char_def)

section \<open>Classifying a failure of the sync tool\<close>

lemma isRcloneNotFound_iff:
  "isRcloneNotFound m \<longleftrightarrow> tool_not_found_signature m \<and> \<not> mentions_missing_section m"
  by (simp add: isRcloneNotFound_def tool_not_found_signature_def mentions_missing_section_def
      includesStr_sublist)

lemma not_found_block_distinct:
  "\<not> set troubleshooting_lines \<subseteq> set (Log (''Sync error: '' @ m) # not_found_lines)"
  by (simp add: troubleshooting_lines_def not_found_lines_def newline_def)

lemma troubleshooting_block_distinct:
  "\<not> set not_found_lines \<subseteq> set (Log (''Sync error: '' @ m) # troubleshooting_lines)"
  by (simp add: troubleshooting_lines_def not_found_lines_def newline_def)

text \<open>
  C6: for every non-empty error message of the sync tool, the sync fails; it is reported
  as ToolNotFound exactly when the message contains a tool-not-found signature and does
  not mention a missing configuration section, and as TransferError in every other case.
\<close>

theorem sync_error_classification:
  "r_error r \<noteq> [] \<Longrightarrow>
     \<not> fst (sync_after_exec (Completed r))
     \<and> (reports_ToolNotFound (snd (sync_after_exec (Completed r)))
          \<longleftrightarrow> tool_not_found_signature (r_error r) \<and> \<not> mentions_missing_section (r_error r))
     \<and> (reports_TransferError (snd (sync_after_exec (Completed r)))
          \<longleftrightarrow> \<not> (tool_not_found_signature (r_error r) \<and> \<not> mentions_missing_section (r_error r)))"
proof -
  assume ne: "r_error r \<noteq> []"
  show ?thesis
  proof (cases "isRcloneNotFound (r_error r)")
    case True
    with ne show ?thesis
      using not_found_block_distinct [of "r_error r"] isRcloneNotFound_iff [of "r_error r"]
      by (auto simp: sync_after_exec_def reports_ToolNotFound_def reports_TransferError_def)
  next
    case False
    with ne show ?thesis
      using troubleshooting_block_distinct [of "r_error r"] isRcloneNotFound_iff [of "r_error r"]
      by (auto simp: sync_after_exec_def reports_ToolNotFound_def reports_TransferError_def)
  qed
qed

theorem sync_error_classification_witness:
  "reports_ToolNotFound (snd (sync_after_exec (Completed
       (exec_clean\<lparr>r_error := ''bash: rclone: command not found''\<rparr>))))
   \<and> \<not> reports_ToolNotFound (snd (sync_after_exec (Completed
       (exec_clean\<lparr>r_error := sig_section @ '' in config file''\<rparr>))))
   \<and> reports_TransferError (snd (sync_after_exec (Completed
       (exec_clean\<lparr>r_error := sig_section @ '' in config file''\<rparr>))))"
  using sync_error_classification [of "exec_clean\<lparr>r_error := ''bash: rclone: command not found''\<rparr>"]
    sync_error_classification [of "exec_clean\<lparr>r_error := sig_section @ '' in config file''\<rparr>"]
  by (simp add: exec_clean_def tool_not_found_signature_def mentions_missing_section_def
      includesStr_sublist [symmetric] startsWith_def sig_zh_def sig_section_def)

section \<open>Filtering the diagnostic output\<close>

lemma progress_line_prefix:
  "progress_line l \<longleftrightarrow>
     prefix ''Transferred:'' l \<or> prefix ''Elapsed time:'' l \<or> prefix ''Checking:'' l"
  by (simp add: progress_line_def startsWith_prefix)

lemma stderr_example:
  "filteredStderr (''Transferred: 3 files'' @ [newline] @ ''Elapsed time: 2s'' @ [newline]
      @ ''permission denied: /x'') = ''permission denied: /x''"
  by (simp add: filteredStderr_def split_lines_def progress_line_def startsWith_def newline_def)

lemma stderr_logged:
  "r_error r = [] \<Longrightarrow>
     fst (sync_after_exec (Completed r))
     \<and> (Log (''Sync stderr: '' @ x) \<in> set (snd (sync_after_exec (Completed r)))
          \<longleftrightarrow> r_stderr r \<noteq> [] \<and> x \<noteq> [] \<and> x = filteredStderr (r_stderr r))"
  by (auto simp: sync_after_exec_def)

text \<open>
  C7: the advisory text is the captured text split into lines, without the lines that
  begin with \<^verbatim>\<open>Transferred:\<close>, \<^verbatim>\<open>Elapsed time:\<close> or \<^verbatim>\<open>Checking:\<close>, joined again;
  the lines are the pieces between the newlines of the text; on a sync without error
  the text logged after \<^verbatim>\<open>Sync stderr:\<close> is this advisory text, when it is not empty;
  and the three lines of the example leave \<^verbatim>\<open>permission denied: /x\<close>.
\<close>

theorem stderr_filtering:
  "filteredStderr err =
     join [newline]
       (filter (\<lambda>l. \<not> prefix ''Transferred:'' l \<and> \<not> prefix ''Elapsed time:'' l
                    \<and> \<not> prefix ''Checking:'' l) (split_lines err))
   \<and> join [newline] (split_lines err) = err
   \<and> (\<forall>l\<in>set (split_lines err). newline \<notin> set l)
   \<and> (r_error r = [] \<longrightarrow>
        fst (sync_after_exec (Completed r))
        \<and> (Log (''Sync stderr: '' @ x) \<in> set (snd (sync_after_exec (Completed r)))
             \<longleftrightarrow> r_stderr r \<noteq> [] \<and> x \<noteq> [] \<and> x = filteredStderr (r_stderr r)))
   \<and> filteredStderr (''Transferred: 3 files'' @ [newline] @ ''Elapsed time: 2s'' @ [newline]
        @ ''permission denied: /x'') = ''permission denied: /x''"
proof -
  have a: "filteredStderr err =
     join [newline]
       (filter (\<lambda>l. \<not> prefix ''Transferred:'' l \<and> \<not> prefix ''Elapsed time:'' l
                    \<and> \<not> prefix ''Checking:'' l) (split_lines err))"
    by (simp add: filteredStderr_def progress_line_prefix)
  have b: "join [newline] (split_lines err) = err"
    by (simp add: split_lines_def join_split_on)
  have c: "\<forall>l\<in>set (split_lines err). newline \<notin> set l"
    using split_on_pieces [of "\<lambda>c. c = newline" err] by (auto simp: split_lines_def)
  show ?thesis using a b c stderr_logged [of r x] stderr_example by blast
qed

theorem stderr_filtering_witness:
  "Log ''Sync stderr: permission denied: /x''
     \<in> set (snd (sync_after_exec (Completed (exec_clean\<lparr>r_stderr :=
          ''Transferred: 3 files'' @ [newline] @ ''Elapsed time: 2s'' @ [newline]
            @ ''permission denied: /x''\<rparr>))))"
  using stderr_filtering [of "''x''" "exec_clean\<lparr>r_stderr :=
          ''Transferred: 3 files'' @ [newline] @ ''Elapsed time: 2s'' @ [newline]
            @ ''permission denied: /x''\<rparr>" "''permission denied: /x''"]
  by (simp add: exec_clean_def)

section \<open>Running a file after a sync\<close>

lemma receive_logs: "x \<in> set (snd (sendToServer_receive oc)) \<Longrightarrow> \<not> is_runCode x \<and> \<not> is_checkFolder x"
  by (auto simp: sendToServer_receive_def split: fetch_outcome.splits)

lemma sendToServer_snd:
  "snd (sendToServer e s action data) =
     (if ip s = [] then [Log ''Error: Server IP not configured'']
      else Fetch (server_url s) action data
             # snd (sendToServer_receive (fetch e (server_url s) action data)))"
  by (simp add: sendToServer_def split: prod.splits)

lemma sendToServer_trace:
  "x \<in> set (snd (sendToServer e s action data)) \<Longrightarrow> is_runCode x \<Longrightarrow> action = ''runCode''"
  using receive_logs [of x] by (auto simp: sendToServer_snd split: if_splits)

lemma after_check_trace: "x \<in> set (snd (sync_after_check wr s cr)) \<Longrightarrow> \<not> is_runCode x"
  by (auto simp: sync_after_check_def split: option.splits if_splits)

lemma after_exec_trace: "x \<in> set (snd (sync_after_exec oc)) \<Longrightarrow> \<not> is_runCode x"
  by (auto simp: sync_after_exec_def not_found_lines_def troubleshooting_lines_def
      split: exec_outcome.splits if_splits)

lemma syncWithServer_no_runCode: "x \<in> set (snd (syncWithServer e wsRoot s)) \<Longrightarrow> \<not> is_runCode x"
proof
  assume x: "x \<in> set (snd (syncWithServer e wsRoot s))" and r: "is_runCode x"
  show False
  proof (cases wsRoot)
    case None
    with x r show False by (simp add: syncWithServer_def)
  next
    case (Some wr)
    show False
    proof (cases "sync_ready wsRoot s")
      case False
      with Some x r show False by (simp add: syncWithServer_def)
    next
      case True
      define snd1 where "snd1 = sendToServer e s ''checkFolder'' [(''folderName'', projectName wr)]"
      define chk where "chk = sync_after_check wr s (fst snd1)"
      have "x \<in> set (snd snd1) \<or> x \<in> set (snd chk)
            \<or> (case fst chk of
                  None \<Rightarrow> False
                | Some cmd \<Rightarrow> x \<in> set (snd (sync_after_exec (executeRclone e cmd))))"
        using x Some True
        by (auto simp: syncWithServer_def snd1_def chk_def split: prod.splits option.splits)
      then show False
        using r sendToServer_trace [of x e s "''checkFolder''"] after_check_trace [of x]
          after_exec_trace [of x]
        by (auto simp: snd1_def chk_def split: option.splits)
    qed
  qed
qed

lemma sync_fails_without_guard:
  "\<not> (truthy_root wsRoot \<and> ip s \<noteq> []) \<Longrightarrow> \<not> fst (syncWithServer e wsRoot s)"
  by (auto simp: syncWithServer_def sync_ready_def truthy_root_def split: option.splits)

lemma sync_online: "fst (syncWithServer env_online (Some ''/w/p'') cfg_plain)"
    by (simp add: syncWithServer_def sync_ready_def truthy_root_def
        cfg_plain_def env_online_def sendToServer_def sendToServer_receive_def
        sync_after_check_def sync_after_exec_def reply_ready_def exec_clean_def)

lemma run_sends_request:
  "truthy_root wsRoot \<Longrightarrow> ip s \<noteq> [] \<Longrightarrow> fst (syncWithServer e wsRoot s) \<Longrightarrow>
     list_ex is_runCode (runCodeOnServer e wsRoot s filePath content)"
proof -
  assume g: "truthy_root wsRoot" "ip s \<noteq> []" and ok: "fst (syncWithServer e wsRoot s)"
  from g obtain wr where wr: "wsRoot = Some wr" "wr \<noteq> []"
    by (auto simp: truthy_root_def split: option.splits)
  define req where "req = sendToServer e s ''runCode''
      [(''folderName'', projectName wr), (''filePath'', relativeFilePath wr filePath),
       (''content'', content)]"
  have "list_ex is_runCode (snd req)"
    using g by (simp add: req_def sendToServer_snd)
  moreover have "runCodeOnServer e wsRoot s filePath content =
      snd (syncWithServer e wsRoot s)
        @ [Log (''Running code: '' @ relativeFilePath wr filePath)] @ snd req @ report_run (fst req)"
    using wr g ok by (auto simp: runCodeOnServer_def Let_def req_def split: prod.splits)
  ultimately show ?thesis by simp
qed

text \<open>
  C8, as stated, fails: a call made while no workspace is open does not run
  \<^verbatim>\<open>syncWithServer\<close>; its trace is the one line of its own guard and does not begin
  with the trace of a sync.
\<close>

theorem run_without_workspace_skips_sync:
  "runCodeOnServer env_online None cfg_plain ''/w/p/a.py'' ''print(1)''
     = [Log ''Error: Workspace not opened or server not configured'']
   \<and> \<not> prefix (snd (syncWithServer env_online None cfg_plain))
         (runCodeOnServer env_online None cfg_plain ''/w/p/a.py'' ''print(1)'')"
  by (simp add: runCodeOnServer_def syncWithServer_def)

text \<open>
  C8, amended: a call of \<^verbatim>\<open>runCodeOnServer\<close> that finds a workspace open and a server
  address configured runs \<^verbatim>\<open>syncWithServer\<close> first, and when that returns failure it
  logs a local error and stops; a call that finds no workspace or no address logs a
  local error without running \<^verbatim>\<open>syncWithServer\<close>. In every call, a \<^verbatim>\<open>runCode\<close>
  request is sent only after \<^verbatim>\<open>syncWithServer\<close> has run and returned success.
\<close>

theorem run_after_sync:
  "(truthy_root wsRoot \<and> ip s \<noteq> [] \<longrightarrow>
      prefix (snd (syncWithServer e wsRoot s)) (runCodeOnServer e wsRoot s filePath content))
   \<and> (truthy_root wsRoot \<and> ip s \<noteq> [] \<and> \<not> fst (syncWithServer e wsRoot s) \<longrightarrow>
        runCodeOnServer e wsRoot s filePath content =
          snd (syncWithServer e wsRoot s) @ [Log ''Error: Failed to sync with server before running''])
   \<and> (\<not> (truthy_root wsRoot \<and> ip s \<noteq> []) \<longrightarrow>
        runCodeOnServer e wsRoot s filePath content =
          [Log ''Error: Workspace not opened or server not configured''])
   \<and> (list_ex is_runCode (runCodeOnServer e wsRoot s filePath content) \<longrightarrow>
        truthy_root wsRoot \<and> ip s \<noteq> [] \<and> fst (syncWithServer e wsRoot s))"
proof -
  have guard: "\<not> (truthy_root wsRoot \<and> ip s \<noteq> []) \<Longrightarrow>
      runCodeOnServer e wsRoot s filePath content =
        [Log ''Error: Workspace not opened or server not configured'']"
    by (auto simp: runCodeOnServer_def truthy_root_def split: option.splits)
  have failed: "truthy_root wsRoot \<and> ip s \<noteq> [] \<Longrightarrow> \<not> fst (syncWithServer e wsRoot s) \<Longrightarrow>
      runCodeOnServer e wsRoot s filePath content =
        snd (syncWithServer e wsRoot s) @ [Log ''Error: Failed to sync with server before running'']"
    by (auto simp: runCodeOnServer_def truthy_root_def split: option.splits prod.splits)
  have pre: "truthy_root wsRoot \<and> ip s \<noteq> [] \<Longrightarrow>
      prefix (snd (syncWithServer e wsRoot s)) (runCodeOnServer e wsRoot s filePath content)"
    by (auto simp: runCodeOnServer_def truthy_root_def Let_def split: option.splits prod.splits)
  have norun: "list_ex is_runCode (runCodeOnServer e wsRoot s filePath content) \<Longrightarrow>
      truthy_root wsRoot \<and> ip s \<noteq> [] \<and> fst (syncWithServer e wsRoot s)"
  proof (rule ccontr)
    assume run: "list_ex is_runCode (runCodeOnServer e wsRoot s filePath content)"
    assume neg: "\<not> (truthy_root wsRoot \<and> ip s \<noteq> [] \<and> fst (syncWithServer e wsRoot s))"
    show False
    proof (cases "truthy_root wsRoot \<and> ip s \<noteq> []")
      case False
      with guard run show False by simp
    next
      case True
      with neg have nf: "\<not> fst (syncWithServer e wsRoot s)" by simp
      from failed [OF True nf] run syncWithServer_no_runCode [of _ e wsRoot s]
      show False by (auto simp: list_ex_iff)
    qed
  qed
  show ?thesis using guard failed pre norun by blast
qed

theorem run_after_sync_witness:
  "runCodeOnServer env_offline (Some ''/w/p'') cfg_plain ''/w/p/a.py'' ''print(1)''
     = [Fetch ''http://10.0.0.5:3100'' ''checkFolder'' [(''folderName'', ''p'')],
        Log ''Error communicating with server: Failed to fetch'',
        Log ''Error checking folder on server'',
        Log ''Error: Failed to sync with server before running'']
   \<and> runCodeOnServer env_online None cfg_plain ''/w/p/a.py'' ''print(1)''
     = [Log ''Error: Workspace not opened or server not configured'']
   \<and> list_ex is_runCode
       (runCodeOnServer env_online (Some ''/w/p'') cfg_plain ''/w/p/a.py'' ''print(1)'')
   \<and> fst (syncWithServer env_online (Some ''/w/p'') cfg_plain)"
proof -
  have g: "truthy_root (Some ''/w/p'')" "ip cfg_plain \<noteq> []"
    by (simp_all add: truthy_root_def cfg_plain_def)
  have n: "\<not> truthy_root None"
    by (simp add: truthy_root_def)
  have off: "syncWithServer env_offline (Some ''/w/p'') cfg_plain =
     (False, [Fetch ''http://10.0.0.5:3100'' ''checkFolder'' [(''folderName'', ''p'')],
              Log ''Error communicating with server: Failed to fetch'',
              Log ''Error checking folder on server''])"
    by (simp add: syncWithServer_def sync_ready_def truthy_root_def cfg_plain_def env_offline_def
        sendToServer_def sendToServer_receive_def server_url_def sync_after_check_def
        projectName_def pop_def is_sep_def backslash_def)
  have run: "list_ex is_runCode
      (runCodeOnServer env_online (Some ''/w/p'') cfg_plain ''/w/p/a.py'' ''print(1)'')"
    using g sync_online by (rule run_sends_request)
  note a = run_after_sync [of "Some ''/w/p''" cfg_plain env_offline "''/w/p/a.py''" "''print(1)''"]
  note b = run_after_sync [of "Some ''/w/p''" cfg_plain env_online "''/w/p/a.py''" "''print(1)''"]
  note c = run_after_sync [of None cfg_plain env_online "''/w/p/a.py''" "''print(1)''"]
  have 1: "runCodeOnServer env_offline (Some ''/w/p'') cfg_plain ''/w/p/a.py'' ''print(1)''
     = [Fetch ''http://10.0.0.5:3100'' ''checkFolder'' [(''folderName'', ''p'')],
        Log ''Error communicating with server: Failed to fetch'',
        Log ''Error checking folder on server'',
        Log ''Error: Failed to sync with server before running'']"
    using a g off by simp
  have 2: "runCodeOnServer env_online None cfg_plain ''/w/p/a.py'' ''print(1)''
     = [Log ''Error: Workspace not opened or server not configured'']"
    using c n by blast
  have 3: "fst (syncWithServer env_online (Some ''/w/p'') cfg_plain)"
    using b run by blast
  show ?thesis using 1 2 3 run by blast
qed

section \<open>The timer of the automatic sync\<close>

lemma timers_ok_init: "timers_ok timers_init"
  by (simp add: timers_ok_def timers_init_def)

lemma setupAutoSync_cleared:
  "timers_ok t \<Longrightarrow>
     fst (setupAutoSync s t) =
       (let interval = (if syncInterval s = 0 then 30 else syncInterval s) in
        if interval > 0
        then \<lparr>autoSyncInterval = Some (next_id t), active = [(next_id t, interval * 1000)],
              next_id = Suc (next_id t)\<rparr>
        else \<lparr>autoSyncInterval = None, active = [], next_id = next_id t\<rparr>)"
proof (cases "autoSyncInterval t")
  case None
  assume "timers_ok t"
  with None have "active t = []" by (simp add: timers_ok_def)
  with None show ?thesis
    by (simp add: setupAutoSync_def setInterval_def Let_def)
next
  case (Some i)
  assume "timers_ok t"
  with Some have i: "i \<noteq> 0" and a: "map fst (active t) = [i]"
    by (simp_all add: timers_ok_def)
  from a obtain p where "active t = [(i, p)]" by (cases "active t") auto
  with Some i show ?thesis
    by (simp add: setupAutoSync_def setInterval_def clearInterval_def Let_def)
qed

lemma setupAutoSync_ok: "timers_ok t \<Longrightarrow> timers_ok (fst (setupAutoSync s t))"
  by (simp add: setupAutoSync_cleared Let_def) (simp add: timers_ok_def)

lemma setupAutoSync_calls_ok: "timers_ok t \<Longrightarrow> timers_ok (setupAutoSync_calls ss t)"
  by (induction ss arbitrary: t) (simp_all add: setupAutoSync_ok)

lemma setupAutoSync_calls_snoc:
  "setupAutoSync_calls (ss @ [s]) t = fst (setupAutoSync s (setupAutoSync_calls ss t))"
  by (induction ss arbitrary: t) simp_all

lemma timers_ok_single: "timers_ok t \<Longrightarrow> length (active t) \<le> 1"
proof -
  assume ok: "timers_ok t"
  have "length (map fst (active t)) \<le> 1"
    using ok by (cases "autoSyncInterval t") (simp_all add: timers_ok_def)
  then show ?thesis by simp
qed

text \<open>
  C2, as stated, fails: a call made when \<^verbatim>\<open>syncInterval\<close> is 0 arms a timer of 30
  seconds, since \<^verbatim>\<open>serverSettings.syncInterval || 30\<close> replaces the 0.
\<close>

theorem zero_interval_arms_default:
  "active (fst (setupAutoSync (cfg_plain\<lparr>syncInterval := 0\<rparr>) timers_init)) = [(1, 30000)]"
  by (simp add: setupAutoSync_def setInterval_def timers_init_def cfg_plain_def Let_def)

text \<open>
  C2, amended: after any sequence of calls of \<^verbatim>\<open>setupAutoSync\<close> at most one timer is
  armed, and a call cancels the timer that was armed before it. A call made when
  \<^verbatim>\<open>syncInterval\<close> is 0 (or absent) leaves one timer with the default period of 30
  seconds; a call with a positive \<^verbatim>\<open>syncInterval\<close> leaves one timer with that period;
  only a call with a negative \<^verbatim>\<open>syncInterval\<close> leaves no timer.
\<close>

theorem auto_sync_single_timer:
  "length (active (setupAutoSync_calls ss timers_init)) \<le> 1
   \<and> (autoSyncInterval (setupAutoSync_calls ss timers_init) = Some i \<longrightarrow>
        i \<notin> fst ` set (active (setupAutoSync_calls (ss @ [s]) timers_init)))
   \<and> (syncInterval s = 0 \<longrightarrow>
        map snd (active (setupAutoSync_calls (ss @ [s]) timers_init)) = [30000])
   \<and> (0 < syncInterval s \<longrightarrow>
        map snd (active (setupAutoSync_calls (ss @ [s]) timers_init)) = [syncInterval s * 1000])
   \<and> (syncInterval s < 0 \<longrightarrow> active (setupAutoSync_calls (ss @ [s]) timers_init) = [])"
proof -
  define t where "t = setupAutoSync_calls ss timers_init"
  have ok: "timers_ok t"
    unfolding t_def using timers_ok_init by (rule setupAutoSync_calls_ok)
  have one: "length (active t) \<le> 1"
    using ok by (rule timers_ok_single)
  have old: "autoSyncInterval t = Some i \<Longrightarrow> i < next_id t"
    using ok by (simp add: timers_ok_def)
  have snoc: "setupAutoSync_calls (ss @ [s]) timers_init = fst (setupAutoSync s t)"
    by (simp add: setupAutoSync_calls_snoc t_def)
  show ?thesis
    unfolding snoc t_def [symmetric]
    using one old by (auto simp: setupAutoSync_cleared [OF ok] Let_def)
qed

theorem auto_sync_single_timer_witness:
  "active (setupAutoSync_calls [cfg_plain, cfg_plain\<lparr>syncInterval := 30\<rparr>] timers_init) = [(2, 30000)]
   \<and> map snd (active (setupAutoSync_calls [cfg_plain, cfg_plain\<lparr>syncInterval := 0\<rparr>] timers_init)) = [30000]
   \<and> active (setupAutoSync_calls [cfg_plain, cfg_plain\<lparr>syncInterval := - 1\<rparr>] timers_init) = []"
proof -
  have a: "setupAutoSync_calls [cfg_plain] timers_init =
      \<lparr>autoSyncInterval = Some 1, active = [(1, 60000)], next_id = 2\<rparr>"
    by (simp add: setupAutoSync_def setInterval_def timers_init_def cfg_plain_def Let_def)
  have b: "active (setupAutoSync_calls [cfg_plain, cfg_plain\<lparr>syncInterval := 30\<rparr>] timers_init) = [(2, 30000)]"
    by (simp add: setupAutoSync_def setInterval_def clearInterval_def timers_init_def cfg_plain_def Let_def)
  show ?thesis
    using a b
      auto_sync_single_timer [of "[cfg_plain]" 1 "cfg_plain\<lparr>syncInterval := 30\<rparr>"]
      auto_sync_single_timer [of "[cfg_plain]" 1 "cfg_plain\<lparr>syncInterval := 0\<rparr>"]
      auto_sync_single_timer [of "[cfg_plain]" 1 "cfg_plain\<lparr>syncInterval := - 1\<rparr>"]
    by (simp add: cfg_plain_def)
qed

section \<open>Calls of syncWithServer that overlap\<close>

lemma step_tasks_length:
  "length (tasks (step ev w)) = length (tasks w) + (if is_call ev then 1 else 0)"
  by (cases ev) (auto simp: step_def Let_def split: option.splits prod.splits)

lemma run_events_tasks_length:
  "length (tasks (run_events evs w)) = length (tasks w) + length (filter is_call evs)"
  by (induction evs arbitrary: w) (simp_all add: step_tasks_length)

lemma in_flight_le_tasks: "in_flight w \<le> length (tasks w)"
  by (simp add: in_flight_def)

lemma filter_update_count:
  "i < length xs \<Longrightarrow> \<not> P (xs ! i) \<Longrightarrow> P y \<Longrightarrow>
     length (filter P (xs[i := y])) = Suc (length (filter P xs))"
proof -
  assume i: "i < length xs" and n: "\<not> P (xs ! i)" and y: "P y"
  have u: "xs[i := y] = take i xs @ y # drop (Suc i) xs"
    using i by (rule upd_conv_take_nth_drop)
  have x: "xs = take i xs @ xs ! i # drop (Suc i) xs"
    using i by (rule id_take_nth_drop)
  have "length (filter P xs) = length (filter P (take i xs)) + length (filter P (drop (Suc i) xs))"
    by (subst x) (simp add: n)
  moreover have "length (filter P (xs[i := y])) =
      Suc (length (filter P (take i xs)) + length (filter P (drop (Suc i) xs)))"
    by (simp add: u y)
  ultimately show ?thesis by simp
qed

lemma fetch_done_starts_process:
  "w_root w = Some wr \<Longrightarrow> i < length (tasks w) \<Longrightarrow> tasks w ! i = AwaitingFetch \<Longrightarrow> success r \<Longrightarrow>
     in_flight (step (FetchDone i (Json (Some r))) w) = Suc (in_flight w)"
  by (simp add: step_def sendToServer_receive_def sync_after_check_def in_flight_def
      filter_update_count)

text \<open>The parts of the interleaved model, run for one call alone, are \<^verbatim>\<open>syncWithServer\<close>.\<close>

lemma lone_call_is_syncWithServer:
  "trace (lone_call e wsRoot s) = snd (syncWithServer e wsRoot s)
   \<and> tasks (lone_call e wsRoot s) = [Finished (fst (syncWithServer e wsRoot s))]"
proof (cases wsRoot)
  case None
  then show ?thesis
    by (simp add: lone_call_def step_def world_init_def syncWithServer_def)
next
  case (Some wr)
  show ?thesis
  proof (cases "sync_ready wsRoot s")
    case False
    with Some show ?thesis
      by (simp add: lone_call_def step_def world_init_def syncWithServer_def)
  next
    case True
    then have ipne: "ip s \<noteq> []" by (simp add: sync_ready_def)
    obtain r l1 where rc: "sendToServer_receive
        (fetch e (server_url s) ''checkFolder'' [(''folderName'', projectName wr)]) = (r, l1)"
      by (cases "sendToServer_receive
        (fetch e (server_url s) ''checkFolder'' [(''folderName'', projectName wr)])") auto
    obtain st l2 where chk: "sync_after_check wr s r = (st, l2)"
      by (cases "sync_after_check wr s r") auto
    have send: "sendToServer e s ''checkFolder'' [(''folderName'', projectName wr)] =
        (r, Fetch (server_url s) ''checkFolder'' [(''folderName'', projectName wr)] # l1)"
      using ipne rc by (simp add: sendToServer_def)
    show ?thesis
    proof (cases st)
      case None
      with Some True rc chk show ?thesis
        by (simp add: lone_call_def step_def world_init_def syncWithServer_def send Let_def)
    next
      case (Some cmd)
      obtain ok l3 where ex: "sync_after_exec (executeRclone e cmd) = (ok, l3)"
        by (cases "sync_after_exec (executeRclone e cmd)") auto
      from Some \<open>wsRoot = Some wr\<close> True rc chk ex show ?thesis
        by (simp add: lone_call_def step_def world_init_def syncWithServer_def send Let_def)
    qed
  qed
qed

text \<open>
  C1, as stated, fails: two calls made one after the other, each getting its answer
  from the server, have two sync tools running at once.
\<close>

theorem two_syncs_overlap:
  "in_flight (run_events [CallSync, CallSync, FetchDone 0 (Json (Some reply_ready)),
      FetchDone 1 (Json (Some reply_ready))] (world_init (Some ''/w/p'') cfg_plain)) = 2"
  by (simp add: step_def world_init_def sync_ready_def truthy_root_def cfg_plain_def
      sendToServer_receive_def sync_after_check_def reply_ready_def in_flight_def)

lemma call_goes_ahead:
  "w_root w = Some wr \<Longrightarrow> sync_ready (w_root w) (w_settings w) \<Longrightarrow>
     tasks (step CallSync w) = tasks w @ [AwaitingFetch]
     \<and> trace (step CallSync w) =
         trace w @ [Fetch (server_url (w_settings w)) ''checkFolder''
                      [(''folderName'', projectName wr)]]
     \<and> in_flight (step CallSync w) = in_flight w"
  by (simp add: step_def in_flight_def)

lemma step_keeps_surroundings:
  "w_root (step ev w) = w_root w \<and> w_settings (step ev w) = w_settings w"
  by (cases ev) (auto simp: step_def Let_def split: option.splits prod.splits)

lemma run_events_keeps_surroundings:
  "w_root (run_events evs w) = w_root w \<and> w_settings (run_events evs w) = w_settings w"
  by (induction evs arbitrary: w) (simp_all add: step_keeps_surroundings)

lemma run_events_append: "run_events (xs @ ys) w = run_events ys (run_events xs w)"
  by (induction xs arbitrary: w) simp_all

lemma calls_pile_up:
  "w_root w = Some wr \<Longrightarrow> sync_ready (w_root w) (w_settings w) \<Longrightarrow>
     tasks (run_events (replicate n CallSync) w) = tasks w @ replicate n AwaitingFetch"
proof (induction n arbitrary: w)
  case 0
  show ?case by simp
next
  case (Suc n)
  have t: "tasks (step CallSync w) = tasks w @ [AwaitingFetch]"
    using Suc.prems by (simp add: call_goes_ahead)
  have "tasks (run_events (replicate n CallSync) (step CallSync w))
      = tasks (step CallSync w) @ replicate n AwaitingFetch"
    using Suc.prems by (intro Suc.IH) (simp_all add: step_keeps_surroundings)
  with t show ?case by (simp add: replicate_app_Cons_same)
qed

lemma replicate_update:
  "k < n \<Longrightarrow> (replicate k a @ replicate (n - k) b)[k := a]
     = replicate (Suc k) a @ replicate (n - Suc k) b"
proof -
  assume "k < n"
  then obtain m where m: "n - k = Suc m" "n - Suc k = m"
    by (cases "n - k") auto
  then show ?thesis by (simp add: list_update_append replicate_append_same)
qed

lemma answer_starts_tool:
  "w_root w = Some wr \<Longrightarrow> success r \<Longrightarrow> i < length (tasks w) \<Longrightarrow> tasks w ! i = AwaitingFetch \<Longrightarrow>
     tasks (step (FetchDone i (Json (Some r))) w)
       = (tasks w)[i := AwaitingExec (rcloneCommand wr (w_settings w))]"
  by (simp add: step_def sendToServer_receive_def sync_after_check_def)

lemma answers_start_tools:
  "w_root w = Some wr \<Longrightarrow> success r \<Longrightarrow> k \<le> n \<Longrightarrow> tasks w = replicate n AwaitingFetch \<Longrightarrow>
     tasks (run_events (map (\<lambda>i. FetchDone i (Json (Some r))) [0..<k]) w)
       = replicate k (AwaitingExec (rcloneCommand wr (w_settings w)))
           @ replicate (n - k) AwaitingFetch"
proof (induction k)
  case 0
  then show ?case by simp
next
  case (Suc k)
  define w' where "w' = run_events (map (\<lambda>i. FetchDone i (Json (Some r))) [0..<k]) w"
  have t: "tasks w' = replicate k (AwaitingExec (rcloneCommand wr (w_settings w)))
           @ replicate (n - k) AwaitingFetch"
    unfolding w'_def using Suc by simp
  have r: "w_root w' = Some wr" and s: "w_settings w' = w_settings w"
    using Suc.prems by (simp_all add: w'_def run_events_keeps_surroundings)
  have k: "k < n" using Suc.prems by simp
  have len: "k < length (tasks w')" using t k by simp
  have at: "tasks w' ! k = AwaitingFetch"
    using t k by (simp add: nth_append)
  have "tasks (step (FetchDone k (Json (Some r))) w')
      = (tasks w')[k := AwaitingExec (rcloneCommand wr (w_settings w))]"
    using answer_starts_tool [OF r \<open>success r\<close> len at] s by simp
  also have "\<dots> = replicate (Suc k) (AwaitingExec (rcloneCommand wr (w_settings w)))
           @ replicate (n - Suc k) AwaitingFetch"
    using t replicate_update [OF k] by simp
  finally show ?case
    by (simp add: run_events_append w'_def)
qed

lemma all_calls_overlap:
  "sync_ready (Some wr) s \<Longrightarrow> success r \<Longrightarrow>
     in_flight (run_events (calls_then_answers n r) (world_init (Some wr) s)) = n"
proof -
  assume ready: "sync_ready (Some wr) s" and ok: "success r"
  define w where "w = run_events (replicate n CallSync) (world_init (Some wr) s)"
  have t: "tasks w = replicate n AwaitingFetch"
    unfolding w_def using ready calls_pile_up [of "world_init (Some wr) s" wr n]
    by (simp add: world_init_def)
  have r: "w_root w = Some wr"
    by (simp add: w_def run_events_keeps_surroundings world_init_def)
  have "tasks (run_events (map (\<lambda>i. FetchDone i (Json (Some r))) [0..<n]) w)
      = replicate n (AwaitingExec (rcloneCommand wr (w_settings w)))"
    using answers_start_tools [OF r ok order_refl t] by simp
  then show ?thesis
    by (simp add: calls_then_answers_def run_events_append w_def [symmetric] in_flight_def)
qed

text \<open>
  C1, amended: \<^verbatim>\<open>syncWithServer\<close> keeps no record of a sync in progress. A call made
  while earlier calls wait for their folder check or have their sync tool running is
  neither held back nor turned away: it sends its own folder check and leaves the other
  calls as they are. A call whose folder check succeeds starts its own sync tool,
  whatever the other calls do. Each call starts at most one sync tool, so the number
  running at once is at most the number of calls made, and \<open>n\<close> calls can have \<open>n\<close>
  sync tools running at once.
\<close>

theorem sync_calls_not_serialised:
  "in_flight (run_events evs (world_init wsRoot s)) \<le> length (filter is_call evs)
   \<and> (w_root w = Some wr \<and> sync_ready (w_root w) (w_settings w) \<longrightarrow>
        tasks (step CallSync w) = tasks w @ [AwaitingFetch]
        \<and> trace (step CallSync w) =
            trace w @ [Fetch (server_url (w_settings w)) ''checkFolder''
                         [(''folderName'', projectName wr)]]
        \<and> in_flight (step CallSync w) = in_flight w)
   \<and> (w_root w = Some wr \<and> i < length (tasks w) \<and> tasks w ! i = AwaitingFetch \<and> success r \<longrightarrow>
        in_flight (step (FetchDone i (Json (Some r))) w) = Suc (in_flight w))
   \<and> (sync_ready (Some wr) s \<and> success r \<longrightarrow>
        in_flight (run_events (calls_then_answers n r) (world_init (Some wr) s)) = n)"
proof -
  have "in_flight (run_events evs (world_init wsRoot s))
      \<le> length (tasks (run_events evs (world_init wsRoot s)))"
    by (rule in_flight_le_tasks)
  also have "\<dots> = length (filter is_call evs)"
    by (simp add: run_events_tasks_length world_init_def)
  finally show ?thesis
    using fetch_done_starts_process [of w wr i r] call_goes_ahead [of w wr]
      all_calls_overlap [of wr s r n]
    by blast
qed

theorem sync_calls_not_serialised_witness:
  "tasks (step CallSync (run_events [CallSync, FetchDone 0 (Json (Some reply_ready))]
       (world_init (Some ''/w/p'') cfg_plain)))
     = [AwaitingExec (rcloneCommand ''/w/p'' cfg_plain), AwaitingFetch]
   \<and> in_flight (step (FetchDone 1 (Json (Some reply_ready)))
        (run_events [CallSync, FetchDone 0 (Json (Some reply_ready)), CallSync]
           (world_init (Some ''/w/p'') cfg_plain))) = 2
   \<and> in_flight (run_events (calls_then_answers 3 reply_ready)
        (world_init (Some ''/w/p'') cfg_plain)) = 3"
proof -
  define w1 where "w1 = run_events [CallSync, FetchDone 0 (Json (Some reply_ready))]
       (world_init (Some ''/w/p'') cfg_plain)"
  define w2 where "w2 = run_events [CallSync, FetchDone 0 (Json (Some reply_ready)), CallSync]
       (world_init (Some ''/w/p'') cfg_plain)"
  have ready: "sync_ready (Some ''/w/p'') cfg_plain"
    by (simp add: sync_ready_def truthy_root_def cfg_plain_def)
  have ok: "success reply_ready" by (simp add: reply_ready_def)
  have w1: "w_root w1 = Some ''/w/p''" "w_settings w1 = cfg_plain"
    "tasks w1 = [AwaitingExec (rcloneCommand ''/w/p'' cfg_plain)]"
    using ready ok
    by (simp_all add: w1_def step_def world_init_def sendToServer_receive_def
        sync_after_check_def)
  have w2: "w_root w2 = Some ''/w/p''"
    "tasks w2 = [AwaitingExec (rcloneCommand ''/w/p'' cfg_plain), AwaitingFetch]"
    using ready ok
    by (simp_all add: w2_def step_def world_init_def sendToServer_receive_def
        sync_after_check_def)
  have f2: "in_flight w2 = 1" using w2 by (simp add: in_flight_def)
  note a = sync_calls_not_serialised [of "[]" None cfg_plain w1 "''/w/p''" 0 reply_ready 0]
  note b = sync_calls_not_serialised [of "[]" None cfg_plain w2 "''/w/p''" 1 reply_ready 0]
  note c = sync_calls_not_serialised [of "[]" "Some ''/w/p''" cfg_plain w2 "''/w/p''" 1 reply_ready 3]
  have 1: "tasks (step CallSync w1) = [AwaitingExec (rcloneCommand ''/w/p'' cfg_plain), AwaitingFetch]"
    using a w1 ready by simp
  have 2: "in_flight (step (FetchDone 1 (Json (Some reply_ready))) w2) = 2"
    using b w2 ok f2 by simp
  have 3: "in_flight (run_events (calls_then_answers 3 reply_ready)
        (world_init (Some ''/w/p'') cfg_plain)) = 3"
    using c ready ok by blast
  show ?thesis
    unfolding w1_def [symmetric] w2_def [symmetric] using 1 2 3 by blast
qed

section \<open>Reading the settings\<close>









text \<open>A settings file holding \<^verbatim>\<open>null\<close> makes \<^verbatim>\<open>updateRcloneConfig\<close> reject; the
  \<^verbatim>\<open>catch\<close> of \<^verbatim>\<open>readServerSettings\<close> takes that too.\<close>

lemma updateRcloneConfig_null:
  "updateRcloneConfig e JNull
     = Rejected (TypeError ''Cannot read properties of null (reading ip)'')"
  by (simp add: updateRcloneConfig_def)

section \<open>The tree of the workspace\<close>

lemma readTree_Null_iff: "readTree obj p = Null \<longleftrightarrow> obj = Missing \<or> obj = NotDirectory"
  by (cases obj) simp_all

text \<open>Every entry that is a directory or a file gives one child: the loop is not cut short.\<close>

lemma readEntries_length:
  "length (readEntries p es) = length (filter (\<lambda>en. case en of Entry n k obj \<Rightarrow> k \<noteq> OtherEnt) es)"
proof (induction es)
  case Nil
  show ?case by simp
next
  case (Cons en es)
  then show ?case by (cases en) (simp split: dkind.splits)
qed

text \<open>A subdirectory that cannot be listed gives a folder node without children.\<close>

lemma readTree_unlistable_subdirectory:
  "readTree (Directory [Entry ''sub'' DirEnt Unlistable, Entry ''a.txt'' FileEnt NotDirectory]) ''/w''
     = Folder ''w'' ''/w'' [Folder ''sub'' ''/w/sub'' [], File ''a.txt'' ''/w/a.txt'']"
  by (simp add: basename_def path_join_def is_sep_def backslash_def)

text \<open>
  C5 at a directory \<^verbatim>\<open>/w\<close> whose listing names a subdirectory \<^verbatim>\<open>gone\<close> that has
  been removed by the time \<^verbatim>\<open>readTree\<close> reaches it, and a file \<^verbatim>\<open>a.txt\<close>: the file
  is still walked, but the child for \<^verbatim>\<open>gone\<close> is \<^verbatim>\<open>null\<close>, not a folder node.
\<close>

theorem readTree_vanished_subdirectory:
  "readTree (Directory [Entry ''gone'' DirEnt Missing, Entry ''a.txt'' FileEnt NotDirectory]) ''/w''
     = Folder ''w'' ''/w'' [Null, File ''a.txt'' ''/w/a.txt'']
   \<and> \<not> well_formed (readTree
         (Directory [Entry ''gone'' DirEnt Missing, Entry ''a.txt'' FileEnt NotDirectory]) ''/w'')"
  by (simp add: basename_def path_join_def is_sep_def backslash_def)

section \<open>Watching the workspace\<close>

text \<open>
  What the call leaves alone: the entry of every path that does not begin, as a string,
  with the characters of the root.
\<close>

lemma path_join_prefix: "prefix d (path_join d n)"
  by (simp add: path_join_def)

lemma map_of_filter_other:
  "p \<noteq> q \<Longrightarrow> map_of (filter (\<lambda>(k, v). k \<noteq> q) xs) p = map_of xs p"
  by (induction xs) auto

lemma clear_watchers_frame:
  "\<not> startsWith p r \<Longrightarrow> map_of (watchers (clear_watchers r l ws)) p = map_of (watchers ws) p"
proof (induction l arbitrary: ws)
  case Nil
  show ?case by simp
next
  case (Cons a l)
  obtain q w where a: "a = (q, w)" by (cases a)
  show ?case
  proof (cases "startsWith q r")
    case True
    with Cons.prems have "p \<noteq> q" by auto
    with Cons a True show ?thesis by (simp add: map_of_filter_other)
  next
    case False
    with Cons a show ?thesis by simp
  qed
qed

lemma set_watcher_frame: "p \<noteq> dir \<Longrightarrow> map_of (watchers (set_watcher dir ws)) p = map_of (watchers ws) p"
proof -
  assume ne: "p \<noteq> dir"
  have h: "map_of (map (\<lambda>(q, w). if q = dir then (q, n) else (q, w)) xs) p = map_of xs p"
    for xs :: "(string \<times> nat) list" and n
    using ne by (induction xs) auto
  show ?thesis using ne by (auto simp: set_watcher_def h map_add_def split: option.splits)
qed

lemma attach_frame:
  "(\<not> prefix dir p \<longrightarrow> map_of (watchers (snd (attachWatcher obj dir ws))) p = map_of (watchers ws) p)"
  "(\<not> prefix dir p \<longrightarrow> map_of (watchers (snd (attachEntries dir es ws))) p = map_of (watchers ws) p)"
proof (induction obj dir ws and dir es ws rule: attachWatcher_attachEntries.induct)
  case (1 dir ws)
  show ?case by simp
next
  case (2 dir ws)
  show ?case by (auto simp: set_watcher_frame)
next
  case (3 dir ws)
  show ?case by (auto simp: set_watcher_frame)
next
  case (4 entries dir ws)
  then show ?case by (auto simp: set_watcher_frame)
next
  case (5 dir ws)
  show ?case by simp
next
  case (6 dir name kind obj es ws)
  show ?case
  proof (cases "kind = DirEnt")
    case False
    with 6 show ?thesis by simp
  next
    case True
    obtain x ws' where aw: "attachWatcher obj (path_join dir name) ws = (x, ws')"
      by (cases "attachWatcher obj (path_join dir name) ws") auto
    show ?thesis
    proof
      assume np: "\<not> prefix dir p"
      have "\<not> prefix (path_join dir name) p"
        using np path_join_prefix [of dir name] prefix_order.trans by blast
      with "6.IH"(1) [OF True] aw have 1: "map_of (watchers ws') p = map_of (watchers ws) p"
        by simp
      show "map_of (watchers (snd (attachEntries dir (Entry name kind obj # es) ws))) p
          = map_of (watchers ws) p"
      proof (cases x)
        case (Some ex)
        with True aw 1 show ?thesis by simp
      next
        case None
        with "6.IH"(2) [OF True aw [symmetric]] np True aw 1 show ?thesis by simp
      qed
    qed
  qed
qed

lemma watchFolderRecursive_frame:
  "\<not> startsWith p r \<Longrightarrow>
     map_of (watchers (snd (watchFolderRecursive obj r ws))) p = map_of (watchers ws) p"
  using attach_frame(1) [of r p obj "clear_watchers r (watchers ws) ws"]
  by (simp add: watchFolderRecursive_def clear_watchers_frame startsWith_prefix)

text \<open>
  C9 at a watch set holding \<^verbatim>\<open>/a/bc\<close> and the call \<^verbatim>\<open>watchFolderRecursive('/a/b')\<close>
  on an empty directory: \<^verbatim>\<open>/a/bc\<close> is neither \<^verbatim>\<open>/a/b\<close> nor below it, yet its
  watcher is closed and its entry deleted, and it is not armed again.
\<close>

theorem watchFolderRecursive_cancels_sibling:
  "watchFolderRecursive (Directory []) ''/a/b''
      \<lparr>watchers = [(''/a/bc'', 0)], closed = [], next_watcher = 1\<rparr>
     = (None, \<lparr>watchers = [(''/a/b'', 1)], closed = [0], next_watcher = 2\<rparr>)
   \<and> armed \<lparr>watchers = [(''/a/bc'', 0)], closed = [], next_watcher = 1\<rparr> ''/a/bc''
   \<and> \<not> armed \<lparr>watchers = [(''/a/b'', 1)], closed = [0], next_watcher = 2\<rparr> ''/a/bc''
   \<and> ''/a/bc'' \<noteq> ''/a/b'' \<and> \<not> descendant ''/a/b'' ''/a/bc''"
  by (simp add: watchFolderRecursive_def startsWith_def has_watcher_def set_watcher_def
      armed_def descendant_def is_sep_def backslash_def)

end
